theory Spec2Isabelle
  imports Complex_Main "HOL-Library.Char_ord" "HOL-Library.List_Lexorder"
begin

section \<open>Python values and errors\<close>

text \<open>
  The add-on keeps its settings in one process-wide dictionary \<^verbatim>\<open>config\<close> that is
  loaded from a JSON file. Its values are the JSON values: integers, booleans, strings,
  lists and nested dictionaries. Python's \<^verbatim>\<open>None\<close> is what \<^verbatim>\<open>config.get(key)\<close>
  returns for an absent key.
\<close>

datatype pyval =
    PNone
  | PInt int
  | PBool bool
  | PStr string
  | PList "pyval list"
  | PDict "(string \<times> pyval) list"

datatype py_error = KeyError string | TypeError

type_synonym pydict = "string \<rightharpoonup> pyval"

text \<open>\<^verbatim>\<open>d.get(key)\<close>: the value, or \<^verbatim>\<open>None\<close> for an absent key.\<close>

definition dict_get :: "pydict \<Rightarrow> string \<Rightarrow> pyval" where
  "dict_get d key = (case d key of None \<Rightarrow> PNone | Some v \<Rightarrow> v)"

text \<open>\<^verbatim>\<open>d.get(key, default)\<close>.\<close>

definition dict_get_default :: "pydict \<Rightarrow> string \<Rightarrow> pyval \<Rightarrow> pyval" where
  "dict_get_default d key dflt = (case d key of None \<Rightarrow> dflt | Some v \<Rightarrow> v)"

text \<open>\<^verbatim>\<open>d[key]\<close>: raises \<^verbatim>\<open>KeyError\<close> for an absent key.\<close>

definition dict_item :: "pydict \<Rightarrow> string \<Rightarrow> py_error + pyval" where
  "dict_item d key = (case d key of None \<Rightarrow> Inl (KeyError key) | Some v \<Rightarrow> Inr v)"

text \<open>\<^verbatim>\<open>d.update(other)\<close>: the entries of \<^verbatim>\<open>other\<close> win.\<close>

definition dict_update :: "pydict \<Rightarrow> pydict \<Rightarrow> pydict" where
  "dict_update d other = d ++ other"

text \<open>
  \<^verbatim>\<open>int(x)\<close> on a number: truncation toward zero. The scale factors of the paste dialog
  are the floats \<^verbatim>\<open>1/8, 1/4, 1/2, 1.5\<close> and the integers \<^verbatim>\<open>1, 2\<close>; each is a dyadic
  rational with numerator at most 3, so the product with an image dimension (a pixel
  count, far below \<open>2^51\<close>) is exact in double precision. The model therefore computes
  the product in the rationals.
\<close>

definition py_int :: "rat \<Rightarrow> int" where
  "py_int x = (if 0 \<le> x then \<lfloor>x\<rfloor> else \<lceil>x\<rceil>)"

text \<open>
  A Python value passed where a Qt method takes an integer (a slider value or limit,
  \<^verbatim>\<open>QComboBox.setCurrentIndex\<close>): an \<^verbatim>\<open>int\<close> is taken as it is and a \<^verbatim>\<open>bool\<close>, a subclass
  of \<^verbatim>\<open>int\<close>, as 0 or 1; anything else raises \<^verbatim>\<open>TypeError\<close>.
\<close>

definition int_arg :: "pyval \<Rightarrow> py_error + int" where
  "int_arg v =
     (case v of
        PInt i \<Rightarrow> Inr i
      | PBool b \<Rightarrow> Inr (if b then 1 else 0)
      | _ \<Rightarrow> Inl TypeError)"

text \<open>
  A Python value passed where a Qt method takes a boolean (\<^verbatim>\<open>QCheckBox.setChecked\<close>): a
  \<^verbatim>\<open>bool\<close> is taken as it is and an \<^verbatim>\<open>int\<close> as true when it is not 0; anything else
  raises \<^verbatim>\<open>TypeError\<close>.
\<close>

definition bool_arg :: "pyval \<Rightarrow> py_error + bool" where
  "bool_arg v =
     (case v of
        PBool b \<Rightarrow> Inr b
      | PInt i \<Rightarrow> Inr (i \<noteq> 0)
      | _ \<Rightarrow> Inl TypeError)"

section \<open>The slider\<close>

text \<open>
  Modelled from the spec: the class \<^verbatim>\<open>RichSlider\<close> of \<^verbatim>\<open>widgets/rich_slider.py\<close>, which
  is not part of the sources at hand. The spec describes it as a bounded integer control
  with a title, a unit, a tooltip and an upper limit, whose state satisfies
  \<open>0 \<le> value \<le> limit\<close> and whose setter stores \<open>clamp(v, 0, limit)\<close>.
\<close>

record RichSlider =
  title :: string
  unit_label :: string
  limit :: int
  val :: int
  tooltip :: string

definition clamp :: "int \<Rightarrow> int \<Rightarrow> int \<Rightarrow> int" where
  "clamp v lo hi = max lo (min v hi)"

text \<open>Modelled from the spec: the constructor \<^verbatim>\<open>RichSlider(title, unit, limit=...)\<close>.\<close>

definition new_RichSlider :: "string \<Rightarrow> string \<Rightarrow> int \<Rightarrow> RichSlider" where
  "new_RichSlider t u l = \<lparr>title = t, unit_label = u, limit = l, val = 0, tooltip = []\<rparr>"

text \<open>Modelled from the spec: the setter of the property \<^verbatim>\<open>RichSlider.value\<close>.\<close>

definition set_value :: "RichSlider \<Rightarrow> int \<Rightarrow> RichSlider" where
  "set_value s v = s\<lparr>val := clamp v 0 (limit s)\<rparr>"

text \<open>Modelled from the spec: \<^verbatim>\<open>RichSlider.set_tooltip\<close>.\<close>

definition set_tooltip :: "RichSlider \<Rightarrow> string \<Rightarrow> RichSlider" where
  "set_tooltip s t = s\<lparr>tooltip := t\<rparr>"

text \<open>The bound invariant of a slider.\<close>

definition slider_ok :: "RichSlider \<Rightarrow> bool" where
  "slider_ok s \<longleftrightarrow> 0 \<le> val s \<and> val s \<le> limit s"

section \<open>The panel of three sliders (\<^verbatim>\<open>widgets/image_slider_box.py\<close>)\<close>

text \<open>
  \<^verbatim>\<open>ImageSliderBox._sliders\<close> is a dictionary built once in \<^verbatim>\<open>__init__\<close> with the three
  keys \<^verbatim>\<open>image_width\<close>, \<^verbatim>\<open>image_height\<close>, \<^verbatim>\<open>image_quality\<close> and never changed afterwards;
  it is a record with these three fields. Loops over \<^verbatim>\<open>_sliders.items()\<close> visit the
  fields in this (insertion) order.
\<close>

record ImageSliderBox =
  image_width :: RichSlider
  image_height :: RichSlider
  image_quality :: RichSlider

definition side_tooltip :: "string \<Rightarrow> string" where
  "side_tooltip side =
     ''Desired '' @ side @ ''.'' @ [CHR 0x0A] @
     ''If either of the width or height parameters is 0,'' @ [CHR 0x0A] @
     ''the value will be calculated preserving the aspect-ratio.'' @ [CHR 0x0A] @
     ''If both values are 0, no resizing is performed (not recommended).''"

definition quality_tooltip :: string where
  "quality_tooltip =
     ''Specify the compression factor between 0 and 100.'' @ [CHR 0x0A] @
     ''A small factor produces a smaller file with lower quality.'' @ [CHR 0x0A] @
     ''Best quality is achieved by using a value of 100.''"

definition set_tooltips :: "ImageSliderBox \<Rightarrow> ImageSliderBox" where
  "set_tooltips b = b\<lparr>
     image_width := set_tooltip (image_width b) (side_tooltip ''width''),
     image_height := set_tooltip (image_height b) (side_tooltip ''height''),
     image_quality := set_tooltip (image_quality b) quality_tooltip\<rparr>"

definition new_ImageSliderBox :: "int \<Rightarrow> int \<Rightarrow> ImageSliderBox" where
  "new_ImageSliderBox max_width max_height = set_tooltips \<lparr>
     image_width = new_RichSlider ''Width'' ''px'' max_width,
     image_height = new_RichSlider ''Height'' ''px'' max_height,
     image_quality = new_RichSlider ''Quality'' ''%'' 100\<rparr>"

text \<open>The properties \<^verbatim>\<open>quality\<close>, \<^verbatim>\<open>width\<close>, \<^verbatim>\<open>height\<close> and the two setters.\<close>

definition quality :: "ImageSliderBox \<Rightarrow> int" where
  "quality b = val (image_quality b)"

definition width :: "ImageSliderBox \<Rightarrow> int" where
  "width b = val (image_width b)"

definition set_width :: "ImageSliderBox \<Rightarrow> int \<Rightarrow> ImageSliderBox" where
  "set_width b v = b\<lparr>image_width := set_value (image_width b) v\<rparr>"

definition height :: "ImageSliderBox \<Rightarrow> int" where
  "height b = val (image_height b)"

definition set_height :: "ImageSliderBox \<Rightarrow> int \<Rightarrow> ImageSliderBox" where
  "set_height b v = b\<lparr>image_height := set_value (image_height b) v\<rparr>"

text \<open>\<^verbatim>\<open>as_dict\<close>: \<^verbatim>\<open>{key: slider.value for key, slider in self._sliders.items()}\<close>.\<close>

definition as_dict :: "ImageSliderBox \<Rightarrow> pydict" where
  "as_dict b = [''image_width'' \<mapsto> PInt (val (image_width b)),
                ''image_height'' \<mapsto> PInt (val (image_height b)),
                ''image_quality'' \<mapsto> PInt (val (image_quality b))]"

text \<open>
  The assignment \<^verbatim>\<open>slider.value = x\<close> with a Python value \<^verbatim>\<open>x\<close>: the Qt setters
  behind it take an integer (a \<^verbatim>\<open>bool\<close> counts as 0 or 1) and raise \<^verbatim>\<open>TypeError\<close> for
  anything else, in particular for the \<^verbatim>\<open>None\<close> of an absent key.
\<close>

definition assign_value :: "RichSlider \<Rightarrow> pyval \<Rightarrow> py_error + RichSlider" where
  "assign_value s x =
     (case int_arg x of Inl err \<Rightarrow> Inl err | Inr v \<Rightarrow> Inr (set_value s v))"

text \<open>
  \<^verbatim>\<open>populate\<close>: \<^verbatim>\<open>for key, slider in self._sliders.items(): slider.value = config.get(key)\<close>.
\<close>

definition populate :: "ImageSliderBox \<Rightarrow> pydict \<Rightarrow> py_error + ImageSliderBox" where
  "populate b cfg =
     (case assign_value (image_width b) (dict_get cfg ''image_width'') of
        Inl e \<Rightarrow> Inl e
      | Inr w \<Rightarrow>
     (case assign_value (image_height b) (dict_get cfg ''image_height'') of
        Inl e \<Rightarrow> Inl e
      | Inr h \<Rightarrow>
     (case assign_value (image_quality b) (dict_get cfg ''image_quality'') of
        Inl e \<Rightarrow> Inl e
      | Inr q \<Rightarrow> Inr (b\<lparr>image_width := w, image_height := h, image_quality := q\<rparr>))))"

text \<open>A valid panel state: every slider within its bound.\<close>

definition panel_ok :: "ImageSliderBox \<Rightarrow> bool" where
  "panel_ok b \<longleftrightarrow> slider_ok (image_width b) \<and> slider_ok (image_height b) \<and> slider_ok (image_quality b)"

section \<open>Scale-factor derivation (\<^verbatim>\<open>PasteDialog\<close> in \<^verbatim>\<open>gui.py\<close>)\<close>

record ImageDimensions =
  img_width :: int
  img_height :: int

text \<open>The factors of \<^verbatim>\<open>create_scale_options_grid\<close>: \<^verbatim>\<open>(1 / 8, 1 / 4, 1 / 2, 1, 1.5, 2)\<close>.\<close>

definition factors :: "rat list" where
  "factors = [1 / 8, 1 / 4, 1 / 2, 1, 3 / 2, 2]"

text \<open>
  \<^verbatim>\<open>adjust_sliders(self, factor)\<close>, as a function of the image, the factor and the panel:
  the second test reads the panel after the first assignment.
\<close>

definition adjust_sliders :: "ImageDimensions \<Rightarrow> rat \<Rightarrow> ImageSliderBox \<Rightarrow> ImageSliderBox" where
  "adjust_sliders img factor b =
     (let b1 = (if width b > 0
                then set_width b (py_int (of_int (img_width img) * factor))
                else b)
      in (if height b1 > 0
          then set_height b1 (py_int (of_int (img_height img) * factor))
          else b1))"

text \<open>Pressing several scale buttons, one after the other.\<close>

fun press_all :: "ImageDimensions \<Rightarrow> rat list \<Rightarrow> ImageSliderBox \<Rightarrow> ImageSliderBox" where
  "press_all img [] b = b"
| "press_all img (f # fs) b = press_all img fs (adjust_sliders img f b)"

section \<open>Field names of a note collection (\<^verbatim>\<open>get_all_keys\<close> in \<^verbatim>\<open>gui.py\<close>)\<close>

text \<open>
  A note of the host application maps field names to field contents; \<^verbatim>\<open>note.keys()\<close>
  lists its field names. Python compares strings lexicographically, character by
  character; the definition is for keys of any linearly ordered type and is used at
  \<^typ>\<open>string\<close>, ordered in the same way.
\<close>

definition note_keys :: "('k \<times> 'v) list \<Rightarrow> 'k list" where
  "note_keys note = map fst note"

text \<open>\<^verbatim>\<open>sorted(set(itertools.chain(*(note.keys() for note in notes))))\<close>.\<close>

definition get_all_keys :: "('k::linorder \<times> 'v) list list \<Rightarrow> 'k list" where
  "get_all_keys notes = sorted_list_of_set (set (concat (map note_keys notes)))"

section \<open>The collaborators of the dialogs\<close>

subsection \<open>Configuration store and message boxes\<close>

text \<open>
  The state outside a dialog: the process-wide dictionary \<^verbatim>\<open>config\<close>, the store behind
  \<^verbatim>\<open>write_config\<close> (every call appends the dictionary it saved), and the message boxes
  that \<^verbatim>\<open>showInfo\<close> of the host application has shown (title and text).
\<close>

record world =
  config :: pydict
  config_file :: "pydict list"
  info_boxes :: "(string \<times> string) list"

text \<open>
  Modelled from the spec: \<^verbatim>\<open>write_config\<close> of the module \<^verbatim>\<open>config\<close>, which is not part of
  the sources at hand; the spec describes the store's \<^verbatim>\<open>save(map)\<close>, which persists the
  current configuration map.
\<close>

definition write_config :: "world \<Rightarrow> world" where
  "write_config w = w\<lparr>config_file := config_file w @ [config w]\<rparr>"

definition showInfo :: "string \<Rightarrow> string \<Rightarrow> world \<Rightarrow> world" where
  "showInfo ttl txt w = w\<lparr>info_boxes := info_boxes w @ [(ttl, txt)]\<rparr>"

subsection \<open>Qt widgets\<close>

text \<open>
  Iterating over a Python value: the elements of a list, the characters of a string, the
  keys of a dictionary; anything else raises \<^verbatim>\<open>TypeError\<close>.
\<close>

definition py_iter :: "pyval \<Rightarrow> py_error + pyval list" where
  "py_iter v =
     (case v of
        PList xs \<Rightarrow> Inr xs
      | PStr cs \<Rightarrow> Inr (map (\<lambda>c. PStr [c]) cs)
      | PDict kvs \<Rightarrow> Inr (map (\<lambda>kv. PStr (fst kv)) kvs)
      | _ \<Rightarrow> Inl TypeError)"

text \<open>
  A \<^verbatim>\<open>QComboBox\<close>: its items (text and user data) and the current index, which is \<open>-1\<close>
  while no item is current. Adding the first item makes it current; setting an index out
  of range leaves no item current.
\<close>

record QComboBox =
  combo_items :: "(string \<times> pyval) list"
  current_index :: int

definition new_QComboBox :: QComboBox where
  "new_QComboBox = \<lparr>combo_items = [], current_index = - 1\<rparr>"

definition addItem :: "string \<Rightarrow> pyval \<Rightarrow> QComboBox \<Rightarrow> QComboBox" where
  "addItem txt data c =
     c\<lparr>combo_items := combo_items c @ [(txt, data)],
       current_index := (if combo_items c = [] then 0 else current_index c)\<rparr>"

definition setCurrentIndex :: "int \<Rightarrow> QComboBox \<Rightarrow> QComboBox" where
  "setCurrentIndex i c =
     c\<lparr>current_index := (if 0 \<le> i \<and> i < int (length (combo_items c)) then i else - 1)\<rparr>"

definition currentIndex :: "QComboBox \<Rightarrow> int" where
  "currentIndex c = current_index c"

definition currentData :: "QComboBox \<Rightarrow> pyval" where
  "currentData c =
     (if 0 \<le> current_index c \<and> current_index c < int (length (combo_items c))
      then snd (combo_items c ! nat (current_index c)) else PNone)"

subsection \<open>Presets editor and field selector\<close>

text \<open>
  Modelled from the spec: the class \<^verbatim>\<open>PresetsEditor\<close> of the package \<^verbatim>\<open>widgets\<close>, which is
  not part of the sources at hand. The spec gives it an ordered list of preset records,
  \<^verbatim>\<open>addItems(records)\<close> that loads records preserving their order, and \<^verbatim>\<open>asList()\<close> that
  returns the ordered records. Its buttons (add, apply, remove a preset) are not modelled.
\<close>

record PresetsEditor =
  preset_items :: "pyval list"

definition new_PresetsEditor :: PresetsEditor where
  "new_PresetsEditor = \<lparr>preset_items = []\<rparr>"

definition add_items :: "PresetsEditor \<Rightarrow> pyval \<Rightarrow> py_error + PresetsEditor" where
  "add_items e records =
     (case py_iter records of
        Inl err \<Rightarrow> Inl err
      | Inr xs \<Rightarrow> Inr (e\<lparr>preset_items := preset_items e @ xs\<rparr>))"

definition as_list :: "PresetsEditor \<Rightarrow> pyval" where
  "as_list e = PList (preset_items e)"

text \<open>
  Modelled from the spec: the class \<^verbatim>\<open>FieldSelector\<close> of the package \<^verbatim>\<open>widgets\<close>, which is
  not part of the sources at hand. The spec gives it the state
  \<^verbatim>\<open>{enabled, selected, available}\<close> with \<open>selected \<subseteq> available\<close>; \<^verbatim>\<open>addFields(names)\<close>
  populates the available names; \<^verbatim>\<open>setFields(selected)\<close> pre-checks a saved subset,
  ignoring names that are not available; \<^verbatim>\<open>selectedFields()\<close> returns the checked names;
  \<^verbatim>\<open>isChecked()\<close> tells whether the restriction to fields is enabled. The spec does not say
  what \<^verbatim>\<open>setFields\<close> does with a value that is no list of names; the model raises
  \<^verbatim>\<open>TypeError\<close> there.
\<close>

record FieldSelector =
  enabled :: bool
  available :: "string list"
  selected :: "string list"

definition new_FieldSelector :: FieldSelector where
  "new_FieldSelector = \<lparr>enabled = False, available = [], selected = []\<rparr>"

definition isChecked :: "FieldSelector \<Rightarrow> bool" where
  "isChecked fs = enabled fs"

definition selected_fields :: "FieldSelector \<Rightarrow> string list" where
  "selected_fields fs = filter (\<lambda>name. name \<in> set (selected fs)) (available fs)"

definition add_fields :: "FieldSelector \<Rightarrow> string list \<Rightarrow> FieldSelector" where
  "add_fields fs names = fs\<lparr>available := available fs @ names\<rparr>"

fun str_list :: "pyval list \<Rightarrow> py_error + string list" where
  "str_list [] = Inr []"
| "str_list (PStr name # rest) =
     (case str_list rest of Inl err \<Rightarrow> Inl err | Inr names \<Rightarrow> Inr (name # names))"
| "str_list (_ # rest) = Inl TypeError"

definition set_fields :: "FieldSelector \<Rightarrow> pyval \<Rightarrow> py_error + FieldSelector" where
  "set_fields fs saved =
     (case saved of
        PList xs \<Rightarrow>
          (case str_list xs of
             Inl err \<Rightarrow> Inl err
           | Inr names \<Rightarrow> Inr (fs\<lparr>selected := filter (\<lambda>name. name \<in> set names) (available fs)\<rparr>))
      | _ \<Rightarrow> Inl TypeError)"

subsection \<open>What the other modules and the host application supply\<close>

text \<open>
  The enumeration \<^verbatim>\<open>ShowOptions\<close> and the class \<^verbatim>\<open>FilePathFactory\<close> of the module \<^verbatim>\<open>utils\<close>
  are not part of the sources at hand, and the selected notes come from the browser window
  of the host application. They are parameters of the model: the members of
  \<^verbatim>\<open>ShowOptions\<close> (value and name, in order), its function \<^verbatim>\<open>index_of\<close>, the populated
  filename patterns, and the notes that \<^verbatim>\<open>selected_notes()\<close> yields.
\<close>

record externals =
  show_options :: "(string \<times> string) list"
  index_of :: "pyval \<Rightarrow> py_error + int"
  patterns_populated :: "string list"
  selected_notes :: "(string \<times> string) list list"

section \<open>The settings dialogs (\<^verbatim>\<open>gui.py\<close>)\<close>

subsection \<open>State of a dialog\<close>

datatype widget =
    SlidersBox
  | PresetsEditorBox
  | FieldSelectorBox
  | ReconvertCheckBox
  | ScaleSettingsGroupBox
  | AdditionalSettingsGroupBox

datatype layout_item = MainVBox | Stretch | ButtonBox

datatype dialog_code = Accepted | Rejected

text \<open>
  The history of a dialog: which of its methods were entered and left, in order. The
  phases of \<^verbatim>\<open>setup_ui\<close> write disjoint attributes, so that the attributes of the dialog
  alone cannot tell in which order they ran; the history can. It is written where a
  method is called on the dialog object and nowhere else: the call records the entry,
  runs the body that the object's class gives the method, and records the exit. No body
  reads or writes it, and neither does \<^verbatim>\<open>setup_ui\<close>.
\<close>

datatype dialog_method =
    CreateMainLayout
  | PopulateMainVbox
  | SetupLogic
  | SetInitialValues
  | QDialogExec
  | Accept
  | Reject

datatype call = Call dialog_method | Return dialog_method

text \<open>A button of the scale grid of \<^verbatim>\<open>PasteDialog\<close>: its factor and its cell.\<close>

record ScaleButton =
  factor :: rat
  grid_row :: nat
  grid_column :: nat

text \<open>
  The three subclasses of \<^verbatim>\<open>SettingsDialog\<close> with the attributes each adds. A method that
  a subclass overrides is a function per class and one function that selects by the
  class of the object, as the method call does.
\<close>

datatype dialog_class =
    BulkConvertDialog FieldSelector bool
  | PasteDialog ImageDimensions "ScaleButton list"
  | SettingsMenuDialog QComboBox QComboBox "(string \<times> bool) list"

text \<open>
  The attributes of \<^verbatim>\<open>SettingsDialog\<close>; of the button box, the slots connected to its two
  signals and the focus; of the underlying \<^verbatim>\<open>QDialog\<close>, the layout and the result code
  (\<open>None\<close> while the dialog has not been closed).
\<close>

record SettingsDialog =
  sliders :: ImageSliderBox
  presets_editor :: PresetsEditor
  main_vbox :: "widget list"
  dialog_layout :: "layout_item list"
  accepted_slot :: bool
  rejected_slot :: bool
  ok_has_focus :: bool
  result_code :: "dialog_code option"
  variant :: dialog_class
  calls :: "call list"

definition record_call :: "call \<Rightarrow> SettingsDialog \<Rightarrow> SettingsDialog" where
  "record_call c d = d\<lparr>calls := calls d @ [c]\<rparr>"

subsection \<open>Construction\<close>

text \<open>
  \<^verbatim>\<open>SettingsDialog.__init__\<close>: both limits are read with \<^verbatim>\<open>config[...]\<close> before the
  slider box is built.
\<close>

definition new_SettingsDialog :: "pydict \<Rightarrow> dialog_class \<Rightarrow> py_error + SettingsDialog" where
  "new_SettingsDialog cfg sub =
     (case dict_item cfg ''max_image_width'' of Inl err \<Rightarrow> Inl err | Inr mw \<Rightarrow>
     (case dict_item cfg ''max_image_height'' of Inl err \<Rightarrow> Inl err | Inr mh \<Rightarrow>
     (case int_arg mw of Inl err \<Rightarrow> Inl err | Inr max_width \<Rightarrow>
     (case int_arg mh of Inl err \<Rightarrow> Inl err | Inr max_height \<Rightarrow>
        Inr \<lparr>sliders = new_ImageSliderBox max_width max_height,
             presets_editor = new_PresetsEditor,
             main_vbox = [],
             dialog_layout = [],
             accepted_slot = False,
             rejected_slot = False,
             ok_has_focus = False,
             result_code = None,
             variant = sub,
             calls = []\<rparr>))))"

definition new_BulkConvertDialog :: "pydict \<Rightarrow> py_error + SettingsDialog" where
  "new_BulkConvertDialog cfg = new_SettingsDialog cfg (BulkConvertDialog new_FieldSelector False)"

definition new_PasteDialog :: "pydict \<Rightarrow> ImageDimensions \<Rightarrow> py_error + SettingsDialog" where
  "new_PasteDialog cfg img = new_SettingsDialog cfg (PasteDialog img [])"

text \<open>The class attribute \<^verbatim>\<open>__checkboxes\<close> of \<^verbatim>\<open>SettingsMenuDialog\<close>.\<close>

definition checkbox_labels :: "(string \<times> string) list" where
  "checkbox_labels =
     [(''drag_and_drop'', ''Convert images on drag and drop''),
      (''copy_paste'', ''Convert images on copy-paste''),
      (''avoid_upscaling'', ''Avoid upscaling''),
      (''preserve_original_filenames'', ''Preserve original filenames, if available'')]"

definition create_when_show_dialog_combo_box :: "externals \<Rightarrow> QComboBox" where
  "create_when_show_dialog_combo_box ext =
     foldl (\<lambda>combobox option. addItem (fst option) (PStr (snd option)) combobox)
       new_QComboBox (show_options ext)"

definition create_filename_pattern_combo_box :: "externals \<Rightarrow> QComboBox" where
  "create_filename_pattern_combo_box ext =
     foldl (\<lambda>combobox option. addItem option PNone combobox)
       new_QComboBox (patterns_populated ext)"

definition new_SettingsMenuDialog :: "externals \<Rightarrow> pydict \<Rightarrow> py_error + SettingsDialog" where
  "new_SettingsMenuDialog ext cfg =
     (case new_SettingsDialog cfg (SettingsMenuDialog new_QComboBox new_QComboBox []) of
        Inl err \<Rightarrow> Inl err
      | Inr d \<Rightarrow>
          Inr (d\<lparr>variant := SettingsMenuDialog
                 (create_when_show_dialog_combo_box ext)
                 (create_filename_pattern_combo_box ext)
                 (map (\<lambda>kt. (fst kt, False)) checkbox_labels)\<rparr>))"

subsection \<open>The four phases of \<^verbatim>\<open>setup_ui\<close>\<close>

text \<open>
  \<^verbatim>\<open>create_main_layout\<close>: the box of the sections, a stretch, the button box. No class
  overrides it.
\<close>

definition SettingsDialog_create_main_layout :: "layout_item list" where
  "SettingsDialog_create_main_layout = [MainVBox, Stretch, ButtonBox]"

definition create_main_layout :: "SettingsDialog \<Rightarrow> layout_item list \<times> SettingsDialog" where
  "create_main_layout d =
     (let d0 = record_call (Call CreateMainLayout) d
      in (SettingsDialog_create_main_layout, record_call (Return CreateMainLayout) d0))"

text \<open>\<^verbatim>\<open>QWidget.setLayout\<close> of Qt.\<close>

definition setLayout :: "layout_item list \<Rightarrow> SettingsDialog \<Rightarrow> SettingsDialog" where
  "setLayout l d = d\<lparr>dialog_layout := l\<rparr>"

definition SettingsDialog_populate_main_vbox :: "SettingsDialog \<Rightarrow> SettingsDialog" where
  "SettingsDialog_populate_main_vbox d =
     d\<lparr>main_vbox := main_vbox d @ [SlidersBox, PresetsEditorBox]\<rparr>"

definition BulkConvertDialog_populate_main_vbox :: "SettingsDialog \<Rightarrow> SettingsDialog" where
  "BulkConvertDialog_populate_main_vbox d =
     (let d1 = SettingsDialog_populate_main_vbox d
      in d1\<lparr>main_vbox := main_vbox d1 @ [FieldSelectorBox, ReconvertCheckBox]\<rparr>)"

text \<open>
  \<^verbatim>\<open>create_scale_options_grid\<close>: one button per factor, in the order of the tuple, three
  to a row; the button's \<^verbatim>\<open>clicked\<close> signal calls \<^verbatim>\<open>adjust_sliders\<close> with its factor.
\<close>

definition create_scale_options_grid :: "ScaleButton list" where
  "create_scale_options_grid =
     map (\<lambda>(index, f). \<lparr>factor = f, grid_row = index div 3,
                         grid_column = index - (index div 3) * 3\<rparr>)
       (enumerate 0 factors)"

definition PasteDialog_populate_main_vbox ::
  "ImageDimensions \<Rightarrow> ScaleButton list \<Rightarrow> SettingsDialog \<Rightarrow> SettingsDialog" where
  "PasteDialog_populate_main_vbox img buttons d =
     (let d1 = SettingsDialog_populate_main_vbox d
      in d1\<lparr>main_vbox := main_vbox d1 @ [ScaleSettingsGroupBox],
            variant := PasteDialog img (buttons @ create_scale_options_grid)\<rparr>)"

definition SettingsMenuDialog_populate_main_vbox :: "SettingsDialog \<Rightarrow> SettingsDialog" where
  "SettingsMenuDialog_populate_main_vbox d =
     (let d1 = SettingsDialog_populate_main_vbox d
      in d1\<lparr>main_vbox := main_vbox d1 @ [AdditionalSettingsGroupBox]\<rparr>)"

text \<open>The call \<^verbatim>\<open>self.populate_main_vbox()\<close>.\<close>

definition populate_main_vbox :: "SettingsDialog \<Rightarrow> SettingsDialog" where
  "populate_main_vbox d =
     (let d0 = record_call (Call PopulateMainVbox) d;
          d1 =
            (case variant d of
               BulkConvertDialog fs rc \<Rightarrow> BulkConvertDialog_populate_main_vbox d0
             | PasteDialog img buttons \<Rightarrow> PasteDialog_populate_main_vbox img buttons d0
             | SettingsMenuDialog ws fp cbs \<Rightarrow> SettingsMenuDialog_populate_main_vbox d0)
      in record_call (Return PopulateMainVbox) d1)"

text \<open>
  \<^verbatim>\<open>setup_logic\<close>: both signals of the button box are connected and Ok gets the focus.
  No class overrides it.
\<close>

definition SettingsDialog_setup_logic :: "SettingsDialog \<Rightarrow> SettingsDialog" where
  "SettingsDialog_setup_logic d =
     d\<lparr>accepted_slot := True, rejected_slot := True, ok_has_focus := True\<rparr>"

definition setup_logic :: "SettingsDialog \<Rightarrow> SettingsDialog" where
  "setup_logic d =
     record_call (Return SetupLogic) (SettingsDialog_setup_logic (record_call (Call SetupLogic) d))"

definition SettingsDialog_set_initial_values ::
  "pydict \<Rightarrow> SettingsDialog \<Rightarrow> py_error + SettingsDialog" where
  "SettingsDialog_set_initial_values cfg d =
     (case populate (sliders d) cfg of Inl err \<Rightarrow> Inl err | Inr b \<Rightarrow>
     (case add_items (presets_editor d) (dict_get_default cfg ''saved_presets'' (PList [])) of
        Inl err \<Rightarrow> Inl err
      | Inr pe \<Rightarrow> Inr (d\<lparr>sliders := b, presets_editor := pe\<rparr>)))"

definition BulkConvertDialog_set_initial_values ::
  "externals \<Rightarrow> pydict \<Rightarrow> FieldSelector \<Rightarrow> bool \<Rightarrow> SettingsDialog \<Rightarrow> py_error + SettingsDialog"
  where
  "BulkConvertDialog_set_initial_values ext cfg fs rc d =
     (let fs1 = add_fields fs (get_all_keys (selected_notes ext)) in
      case set_fields fs1 (dict_get cfg ''bulk_convert_fields'') of Inl err \<Rightarrow> Inl err | Inr fs2 \<Rightarrow>
     (case bool_arg (dict_get cfg ''bulk_reconvert_webp'') of Inl err \<Rightarrow> Inl err | Inr rc2 \<Rightarrow>
        SettingsDialog_set_initial_values cfg (d\<lparr>variant := BulkConvertDialog fs2 rc2\<rparr>)))"

text \<open>
  \<^verbatim>\<open>for key, widget in self.checkboxes.items(): widget.setChecked(config[key])\<close>
\<close>

fun load_checkboxes :: "pydict \<Rightarrow> (string \<times> bool) list \<Rightarrow> py_error + (string \<times> bool) list" where
  "load_checkboxes cfg [] = Inr []"
| "load_checkboxes cfg ((key, c) # rest) =
     (case dict_item cfg key of Inl err \<Rightarrow> Inl err | Inr v \<Rightarrow>
     (case bool_arg v of Inl err \<Rightarrow> Inl err | Inr b \<Rightarrow>
     (case load_checkboxes cfg rest of Inl err \<Rightarrow> Inl err | Inr rest2 \<Rightarrow>
        Inr ((key, b) # rest2))))"

definition SettingsMenuDialog_set_initial_values ::
  "externals \<Rightarrow> pydict \<Rightarrow> SettingsDialog \<Rightarrow> py_error + SettingsDialog" where
  "SettingsMenuDialog_set_initial_values ext cfg d =
     (case SettingsDialog_set_initial_values cfg d of Inl err \<Rightarrow> Inl err | Inr d1 \<Rightarrow>
     (case variant d1 of
        SettingsMenuDialog ws fp cbs \<Rightarrow>
          (case index_of ext (dict_get cfg ''show_settings'') of Inl err \<Rightarrow> Inl err | Inr i \<Rightarrow>
          (case int_arg (dict_get_default cfg ''filename_pattern_num'' (PInt 0)) of
             Inl err \<Rightarrow> Inl err
           | Inr j \<Rightarrow>
          (case load_checkboxes cfg cbs of Inl err \<Rightarrow> Inl err | Inr cbs2 \<Rightarrow>
             Inr (d1\<lparr>variant := SettingsMenuDialog (setCurrentIndex i ws) (setCurrentIndex j fp) cbs2\<rparr>))))
      | _ \<Rightarrow> Inr d1))"

text \<open>
  The call \<^verbatim>\<open>self.set_initial_values()\<close>; an exception of the body leaves the method
  without an exit.
\<close>

definition set_initial_values ::
  "externals \<Rightarrow> pydict \<Rightarrow> SettingsDialog \<Rightarrow> py_error + SettingsDialog" where
  "set_initial_values ext cfg d =
     (let d0 = record_call (Call SetInitialValues) d
      in case
           (case variant d of
              BulkConvertDialog fs rc \<Rightarrow> BulkConvertDialog_set_initial_values ext cfg fs rc d0
            | PasteDialog img buttons \<Rightarrow> SettingsDialog_set_initial_values cfg d0
            | SettingsMenuDialog ws fp cbs \<Rightarrow> SettingsMenuDialog_set_initial_values ext cfg d0)
         of
           Inl err \<Rightarrow> Inl err
         | Inr d1 \<Rightarrow> Inr (record_call (Return SetInitialValues) d1))"

text \<open>
  \<^verbatim>\<open>setup_ui\<close>, statement by statement:
  \<^verbatim>\<open>self.setLayout(self.create_main_layout())\<close>, \<^verbatim>\<open>self.populate_main_vbox()\<close>,
  \<^verbatim>\<open>self.setup_logic()\<close>, \<^verbatim>\<open>self.set_initial_values()\<close>. An exception of the last call
  leaves \<^verbatim>\<open>setup_ui\<close> (and \<^verbatim>\<open>exec\<close>) at once.
\<close>

definition setup_ui :: "externals \<Rightarrow> pydict \<Rightarrow> SettingsDialog \<Rightarrow> py_error + SettingsDialog" where
  "setup_ui ext cfg d =
     (let (l, d0) = create_main_layout d;
          d1 = setLayout l d0;
          d2 = populate_main_vbox d1;
          d3 = setup_logic d2
      in set_initial_values ext cfg d3)"

subsection \<open>Accepting and rejecting\<close>

text \<open>\<^verbatim>\<open>QDialog.accept\<close> and \<^verbatim>\<open>QDialog.reject\<close> of Qt close the dialog with a result code.\<close>

definition QDialog_accept :: "SettingsDialog \<Rightarrow> SettingsDialog" where
  "QDialog_accept d = d\<lparr>result_code := Some Accepted\<rparr>"

definition QDialog_reject :: "SettingsDialog \<Rightarrow> SettingsDialog" where
  "QDialog_reject d = d\<lparr>result_code := Some Rejected\<rparr>"

text \<open>
  \<^verbatim>\<open>SettingsDialog.accept\<close>: update \<^verbatim>\<open>config\<close> from the sliders, store the presets, call
  \<^verbatim>\<open>write_config()\<close>, then \<^verbatim>\<open>super().accept()\<close>.
\<close>

definition SettingsDialog_accept :: "world \<Rightarrow> SettingsDialog \<Rightarrow> world \<times> SettingsDialog" where
  "SettingsDialog_accept w d =
     (let w1 = w\<lparr>config := dict_update (config w) (as_dict (sliders d))\<rparr>;
          w2 = w1\<lparr>config := (config w1)(''saved_presets'' \<mapsto> as_list (presets_editor d))\<rparr>;
          w3 = write_config w2
      in (w3, QDialog_accept d))"

text \<open>
  \<^verbatim>\<open>BulkConvertDialog.accept\<close>: with the field selector checked and no field selected, a
  message box and nothing else; otherwise the two keys are written and the base class
  takes over.
\<close>

definition BulkConvertDialog_accept ::
  "FieldSelector \<Rightarrow> bool \<Rightarrow> world \<Rightarrow> SettingsDialog \<Rightarrow> world \<times> SettingsDialog" where
  "BulkConvertDialog_accept fs rc w d =
     (if isChecked fs \<and> selected_fields fs = []
      then (showInfo ''Can't accept settings'' ''No fields selected. Nothing to convert.'' w, d)
      else
        (let w1 = w\<lparr>config := (config w)(''bulk_convert_fields'' \<mapsto>
                                   PList (map PStr (selected_fields fs)))\<rparr>;
             w2 = w1\<lparr>config := (config w1)(''bulk_reconvert_webp'' \<mapsto> PBool rc)\<rparr>
         in SettingsDialog_accept w2 d))"

text \<open>\<^verbatim>\<open>for key, widget in self.checkboxes.items(): config[key] = widget.isChecked()\<close>\<close>

fun store_checkboxes :: "(string \<times> bool) list \<Rightarrow> pydict \<Rightarrow> pydict" where
  "store_checkboxes [] cfg = cfg"
| "store_checkboxes ((key, c) # rest) cfg = store_checkboxes rest (cfg(key \<mapsto> PBool c))"

definition SettingsMenuDialog_accept ::
  "QComboBox \<Rightarrow> QComboBox \<Rightarrow> (string \<times> bool) list \<Rightarrow> world \<Rightarrow> SettingsDialog
     \<Rightarrow> world \<times> SettingsDialog" where
  "SettingsMenuDialog_accept ws fp cbs w d =
     (let w1 = w\<lparr>config := (config w)(''show_settings'' \<mapsto> currentData ws)\<rparr>;
          w2 = w1\<lparr>config := (config w1)(''filename_pattern_num'' \<mapsto> PInt (currentIndex fp))\<rparr>;
          w3 = w2\<lparr>config := store_checkboxes cbs (config w2)\<rparr>
      in SettingsDialog_accept w3 d)"

text \<open>The method \<^verbatim>\<open>accept\<close> of a dialog object, with its entry and exit in the history.\<close>

definition accept :: "world \<Rightarrow> SettingsDialog \<Rightarrow> world \<times> SettingsDialog" where
  "accept w d =
     (let d0 = record_call (Call Accept) d;
          (w1, d1) =
            (case variant d of
               BulkConvertDialog fs rc \<Rightarrow> BulkConvertDialog_accept fs rc w d0
             | PasteDialog img buttons \<Rightarrow> SettingsDialog_accept w d0
             | SettingsMenuDialog ws fp cbs \<Rightarrow> SettingsMenuDialog_accept ws fp cbs w d0)
      in (w1, record_call (Return Accept) d1))"

text \<open>No class overrides \<^verbatim>\<open>reject\<close>: it is Qt's.\<close>

definition reject :: "world \<Rightarrow> SettingsDialog \<Rightarrow> world \<times> SettingsDialog" where
  "reject w d = (w, record_call (Return Reject) (QDialog_reject (record_call (Call Reject) d)))"

subsection \<open>The user at the controls\<close>

text \<open>
  What the user can do to the controls of an open dialog, each handled to completion
  before the next: move a slider (the slider keeps the value within its range), check or
  uncheck the field selector, one of its fields, the reconvert box or a behaviour box,
  choose an item of a combo box, and click a button of the scale grid. A control that the
  dialog's class does not have ignores the event. The list of a field selector only
  offers the available names, so that \<open>selected \<subseteq> available\<close> as the spec requires of
  the absent class; the buttons of the presets editor are not among the events.
\<close>

datatype slider_name = Width | Height | Quality

datatype control_event =
    SliderMoved slider_name int
  | FieldSelectorToggled bool
  | FieldToggled string bool
  | ReconvertToggled bool
  | CheckboxToggled string bool
  | ShowDialogChosen nat
  | FilenamePatternChosen nat
  | ScaleButtonClicked nat

datatype event = Control control_event | OkClicked | CancelClicked

definition move_slider :: "slider_name \<Rightarrow> int \<Rightarrow> ImageSliderBox \<Rightarrow> ImageSliderBox" where
  "move_slider name v b =
     (case name of
        Width \<Rightarrow> b\<lparr>image_width := set_value (image_width b) v\<rparr>
      | Height \<Rightarrow> b\<lparr>image_height := set_value (image_height b) v\<rparr>
      | Quality \<Rightarrow> b\<lparr>image_quality := set_value (image_quality b) v\<rparr>)"

definition toggle_field :: "string \<Rightarrow> bool \<Rightarrow> FieldSelector \<Rightarrow> FieldSelector" where
  "toggle_field name on fs =
     (if name \<in> set (available fs)
      then fs\<lparr>selected := (if on then name # removeAll name (selected fs)
                             else removeAll name (selected fs))\<rparr>
      else fs)"

definition choose_item :: "nat \<Rightarrow> QComboBox \<Rightarrow> QComboBox" where
  "choose_item i c = (if i < length (combo_items c) then setCurrentIndex (int i) c else c)"

definition toggle_checkbox :: "string \<Rightarrow> bool \<Rightarrow> (string \<times> bool) list \<Rightarrow> (string \<times> bool) list" where
  "toggle_checkbox key on cbs = map (\<lambda>kc. if fst kc = key then (key, on) else kc) cbs"

definition user_input :: "control_event \<Rightarrow> SettingsDialog \<Rightarrow> SettingsDialog" where
  "user_input c d =
     (case (c, variant d) of
        (SliderMoved name v, _) \<Rightarrow> d\<lparr>sliders := move_slider name v (sliders d)\<rparr>
      | (FieldSelectorToggled on, BulkConvertDialog fs rc) \<Rightarrow>
          d\<lparr>variant := BulkConvertDialog (fs\<lparr>enabled := on\<rparr>) rc\<rparr>
      | (FieldToggled name on, BulkConvertDialog fs rc) \<Rightarrow>
          d\<lparr>variant := BulkConvertDialog (toggle_field name on fs) rc\<rparr>
      | (ReconvertToggled on, BulkConvertDialog fs rc) \<Rightarrow>
          d\<lparr>variant := BulkConvertDialog fs on\<rparr>
      | (CheckboxToggled key on, SettingsMenuDialog ws fp cbs) \<Rightarrow>
          d\<lparr>variant := SettingsMenuDialog ws fp (toggle_checkbox key on cbs)\<rparr>
      | (ShowDialogChosen i, SettingsMenuDialog ws fp cbs) \<Rightarrow>
          d\<lparr>variant := SettingsMenuDialog (choose_item i ws) fp cbs\<rparr>
      | (FilenamePatternChosen i, SettingsMenuDialog ws fp cbs) \<Rightarrow>
          d\<lparr>variant := SettingsMenuDialog ws (choose_item i fp) cbs\<rparr>
      | (ScaleButtonClicked k, PasteDialog img buttons) \<Rightarrow>
          (if k < length buttons
           then d\<lparr>sliders := adjust_sliders img (factor (buttons ! k)) (sliders d)\<rparr>
           else d)
      | _ \<Rightarrow> d)"

text \<open>
  One event of the dialog's event loop. A click on Ok or Cancel emits the button box's
  \<^verbatim>\<open>accepted\<close> or \<^verbatim>\<open>rejected\<close> signal, which runs the slot that \<^verbatim>\<open>setup_logic\<close> connected,
  if any.
\<close>

fun handle :: "event \<Rightarrow> world \<times> SettingsDialog \<Rightarrow> world \<times> SettingsDialog" where
  "handle (Control c) (w, d) = (w, user_input c d)"
| "handle OkClicked (w, d) = (if accepted_slot d then accept w d else (w, d))"
| "handle CancelClicked (w, d) = (if rejected_slot d then reject w d else (w, d))"

text \<open>The event loop runs until the dialog has a result code; later events never reach it.\<close>

fun event_loop :: "event list \<Rightarrow> world \<times> SettingsDialog \<Rightarrow> world \<times> SettingsDialog" where
  "event_loop [] (w, d) = (w, d)"
| "event_loop (e # es) (w, d) =
     (if result_code d \<noteq> None then (w, d) else event_loop es (handle e (w, d)))"

text \<open>
  \<^verbatim>\<open>QDialog.exec\<close> of Qt: the dialog is shown without a result code and the event loop
  runs on the user's events.
\<close>

definition QDialog_exec :: "event list \<Rightarrow> world \<Rightarrow> SettingsDialog \<Rightarrow> world \<times> SettingsDialog" where
  "QDialog_exec evs w d = event_loop evs (w, record_call (Call QDialogExec) (d\<lparr>result_code := None\<rparr>))"

text \<open>
  \<^verbatim>\<open>SettingsDialog.exec\<close>: \<^verbatim>\<open>self.setup_ui()\<close>, then \<^verbatim>\<open>super().exec()\<close>. The phases read the
  process-wide \<^verbatim>\<open>config\<close>.
\<close>

definition exec :: "externals \<Rightarrow> event list \<Rightarrow> world \<Rightarrow> SettingsDialog
    \<Rightarrow> py_error + world \<times> SettingsDialog" where
  "exec ext evs w d =
     (case setup_ui ext (config w) d of
        Inl err \<Rightarrow> Inl err
      | Inr d1 \<Rightarrow> Inr (QDialog_exec evs w d1))"

subsection \<open>Notions used in the properties\<close>

text \<open>The history that a complete \<^verbatim>\<open>setup_ui\<close> adds, and the entries of the commit phase.\<close>

definition setup_calls :: "call list" where
  "setup_calls =
     [Call CreateMainLayout, Return CreateMainLayout,
      Call PopulateMainVbox, Return PopulateMainVbox,
      Call SetupLogic, Return SetupLogic,
      Call SetInitialValues, Return SetInitialValues]"

definition commit_calls :: "call set" where
  "commit_calls = {Call Accept, Return Accept, Call Reject, Return Reject}"

text \<open>The test of \<^verbatim>\<open>BulkConvertDialog.accept\<close>; no other class refuses to accept.\<close>

definition commit_refused :: "SettingsDialog \<Rightarrow> bool" where
  "commit_refused d =
     (case variant d of
        BulkConvertDialog fs rc \<Rightarrow> isChecked fs \<and> selected_fields fs = []
      | _ \<Rightarrow> False)"

text \<open>
  A configuration that has, with a value that the Qt setter takes, every key that the
  dialog of the given class reads while it loads its initial values (the keys read with
  \<^verbatim>\<open>get\<close> and a default may be absent).
\<close>

definition has_int :: "pydict \<Rightarrow> string \<Rightarrow> bool" where
  "has_int cfg key =
     (case cfg key of Some (PInt i) \<Rightarrow> True | Some (PBool b) \<Rightarrow> True | _ \<Rightarrow> False)"

definition has_bool :: "pydict \<Rightarrow> string \<Rightarrow> bool" where
  "has_bool cfg key =
     (case cfg key of Some (PBool b) \<Rightarrow> True | Some (PInt i) \<Rightarrow> True | _ \<Rightarrow> False)"

definition is_str :: "pyval \<Rightarrow> bool" where
  "is_str v = (case v of PStr s \<Rightarrow> True | _ \<Rightarrow> False)"

definition config_complete :: "externals \<Rightarrow> pydict \<Rightarrow> dialog_class \<Rightarrow> bool" where
  "config_complete ext cfg v \<longleftrightarrow>
     has_int cfg ''image_width'' \<and> has_int cfg ''image_height'' \<and> has_int cfg ''image_quality'' \<and>
     (case cfg ''saved_presets'' of None \<Rightarrow> True | Some (PList xs) \<Rightarrow> True | _ \<Rightarrow> False) \<and>
     (case v of
        BulkConvertDialog fs rc \<Rightarrow>
          (case cfg ''bulk_convert_fields'' of Some (PList xs) \<Rightarrow> list_all is_str xs | _ \<Rightarrow> False) \<and>
          has_bool cfg ''bulk_reconvert_webp''
      | PasteDialog img buttons \<Rightarrow> True
      | SettingsMenuDialog ws fp cbs \<Rightarrow>
          \<not> isl (index_of ext (dict_get cfg ''show_settings'')) \<and>
          (cfg ''filename_pattern_num'' = None \<or> has_int cfg ''filename_pattern_num'') \<and>
          list_all (\<lambda>kc. has_bool cfg (fst kc)) cbs)"

subsection \<open>Example inputs\<close>

text \<open>A configuration, collaborators and one dialog of each class, for concrete runs.\<close>

definition example_config :: pydict where
  "example_config =
     [''max_image_width'' \<mapsto> PInt 800, ''max_image_height'' \<mapsto> PInt 600,
      ''image_width'' \<mapsto> PInt 0, ''image_height'' \<mapsto> PInt 200, ''image_quality'' \<mapsto> PInt 20,
      ''saved_presets'' \<mapsto> PList [],
      ''bulk_convert_fields'' \<mapsto> PList [PStr ''Front''], ''bulk_reconvert_webp'' \<mapsto> PBool False,
      ''show_settings'' \<mapsto> PStr ''always'', ''filename_pattern_num'' \<mapsto> PInt 0,
      ''drag_and_drop'' \<mapsto> PBool True, ''copy_paste'' \<mapsto> PBool False,
      ''avoid_upscaling'' \<mapsto> PBool True, ''preserve_original_filenames'' \<mapsto> PBool True]"

definition example_externals :: externals where
  "example_externals =
     \<lparr>show_options = [(''Always'', ''always''), (''Never'', ''never'')],
      index_of = (\<lambda>v. if v = PStr ''never'' then Inr 1 else Inr 0),
      patterns_populated = [''paste_1.webp''],
      selected_notes =
        [[(''Front'', ''a''), (''Back'', ''b'')], [(''Front'', ''c''), (''Extra'', [])]]\<rparr>"

definition example_world :: world where
  "example_world = \<lparr>config = example_config, config_file = [], info_boxes = []\<rparr>"

definition example_paste_dialog :: SettingsDialog where
  "example_paste_dialog =
     projr (new_PasteDialog example_config \<lparr>img_width = 800, img_height = 600\<rparr>)"

definition example_bulk_dialog :: SettingsDialog where
  "example_bulk_dialog = projr (new_BulkConvertDialog example_config)"

definition example_menu_dialog :: SettingsDialog where
  "example_menu_dialog = projr (new_SettingsMenuDialog example_externals example_config)"

section \<open>Properties of the scale-factor derivation\<close>

subsection \<open>The panel's getters and setters\<close>

lemma width_set_width: "width (set_width b v) = clamp v 0 (limit (image_width b))"
  by (simp add: width_def set_width_def set_value_def)

lemma height_set_width: "height (set_width b v) = height b"
  by (simp add: height_def set_width_def)

lemma width_set_height: "width (set_height b v) = width b"
  by (simp add: width_def set_height_def)

lemma height_set_height: "height (set_height b v) = clamp v 0 (limit (image_height b))"
  by (simp add: height_def set_height_def set_value_def)

lemma limit_width_set_height: "limit (image_width (set_height b v)) = limit (image_width b)"
  by (simp add: set_height_def)

lemma limit_height_set_width: "limit (image_height (set_width b v)) = limit (image_height b)"
  by (simp add: set_width_def)

lemma limit_width_set_width: "limit (image_width (set_width b v)) = limit (image_width b)"
  by (simp add: set_width_def set_value_def)

lemma limit_height_set_height: "limit (image_height (set_height b v)) = limit (image_height b)"
  by (simp add: set_height_def set_value_def)

text \<open>Writing the value a slider already shows changes nothing.\<close>

lemma set_width_same: "width b = clamp v 0 (limit (image_width b)) \<Longrightarrow> set_width b v = b"
  by (simp add: set_width_def set_value_def width_def)

lemma set_height_same: "height b = clamp v 0 (limit (image_height b)) \<Longrightarrow> set_height b v = b"
  by (simp add: set_height_def set_value_def height_def)

subsection \<open>One press of a scale button\<close>

lemma adjust_width_pos:
  "0 < width b \<Longrightarrow>
   width (adjust_sliders img f b) =
     clamp (py_int (of_int (img_width img) * f)) 0 (limit (image_width b))"
  by (simp add: adjust_sliders_def Let_def width_set_width width_set_height)

lemma adjust_width_nonpos: "\<not> 0 < width b \<Longrightarrow> width (adjust_sliders img f b) = width b"
  by (simp add: adjust_sliders_def Let_def width_set_height)

lemma adjust_height_pos:
  "0 < height b \<Longrightarrow>
   height (adjust_sliders img f b) =
     clamp (py_int (of_int (img_height img) * f)) 0 (limit (image_height b))"
  by (simp add: adjust_sliders_def Let_def height_set_width height_set_height
      limit_height_set_width)

lemma adjust_height_nonpos: "\<not> 0 < height b \<Longrightarrow> height (adjust_sliders img f b) = height b"
  by (simp add: adjust_sliders_def Let_def height_set_width)

lemma adjust_noop: "\<not> 0 < width b \<Longrightarrow> \<not> 0 < height b \<Longrightarrow> adjust_sliders img f b = b"
  by (simp add: adjust_sliders_def Let_def)

lemma adjust_limit_width: "limit (image_width (adjust_sliders img f b)) = limit (image_width b)"
  by (simp add: adjust_sliders_def Let_def limit_width_set_height limit_width_set_width)

lemma adjust_limit_height: "limit (image_height (adjust_sliders img f b)) = limit (image_height b)"
  by (simp add: adjust_sliders_def Let_def limit_height_set_height limit_height_set_width)

lemma py_int_floor: "0 \<le> x \<Longrightarrow> py_int x = \<lfloor>x\<rfloor>"
  by (simp add: py_int_def)

lemma factors_nonneg: "f \<in> set factors \<Longrightarrow> 0 \<le> f"
  by (auto simp: factors_def)

lemma clamp_within: "0 \<le> v \<Longrightarrow> v \<le> l \<Longrightarrow> clamp v 0 l = v"
  by (simp add: clamp_def)

lemma clamp_above: "0 \<le> v \<Longrightarrow> 0 \<le> l \<Longrightarrow> clamp v 0 l = min v l"
  by (simp add: clamp_def)

lemma clamp_zero: "clamp 0 0 l = 0"
  by (simp add: clamp_def)

text \<open>The example of the specification: an \<open>800 x 600\<close> original, the panel at \<open>800 x 600\<close>.\<close>

lemma adjust_example:
  assumes "img_width img = 800" and "img_height img = 600"
    and "width b = 800" and "height b = 600"
    and wl: "width b \<le> limit (image_width b)" and hl: "height b \<le> limit (image_height b)"
  shows "width (adjust_sliders img (1 / 2) b) = 400"
    and "height (adjust_sliders img (1 / 2) b) = 300"
    and "width (adjust_sliders img 2 b) = min 1600 (limit (image_width b))"
    and "height (adjust_sliders img 2 b) = min 1200 (limit (image_height b))"
proof -
  have e: "py_int (of_int 800 * (1 / 2)) = 400" "py_int (of_int 600 * (1 / 2)) = 300"
    "py_int (of_int 800 * 2) = 1600" "py_int (of_int 600 * 2) = 1200"
    by code_simp+
  have wp: "0 < width b" and hp: "0 < height b"
    using assms by simp_all
  have l: "800 \<le> limit (image_width b)" "600 \<le> limit (image_height b)"
    using assms by simp_all
  show "width (adjust_sliders img (1 / 2) b) = 400"
    unfolding adjust_width_pos [OF wp] assms(1) e using l by (simp add: clamp_within)
  show "height (adjust_sliders img (1 / 2) b) = 300"
    unfolding adjust_height_pos [OF hp] assms(2) e using l by (simp add: clamp_within)
  show "width (adjust_sliders img 2 b) = min 1600 (limit (image_width b))"
    unfolding adjust_width_pos [OF wp] assms(1) e using l by (simp add: clamp_above)
  show "height (adjust_sliders img 2 b) = min 1200 (limit (image_height b))"
    unfolding adjust_height_pos [OF hp] assms(2) e using l by (simp add: clamp_above)
qed

text \<open>
  C1 (as amended). A press of the button of factor \<open>f\<close> on a valid panel sets a non-zero
  width to \<^verbatim>\<open>int(original.width * f)\<close>, the product truncated toward zero (for a
  non-negative dimension: its floor), clamped by the slider into \<open>0 .. limit\<close>; and the
  same for the height. With the original \<open>800 x 600\<close> and the panel at \<open>800 x 600\<close>,
  factor \<open>1/2\<close> yields \<open>400 x 300\<close>, and factor \<open>2\<close> yields \<open>1600 x 1200\<close> cut down to
  the sliders' limits.
\<close>

theorem adjust_sliders_truncates:
  assumes ok: "panel_ok b" and f: "f \<in> set factors"
  shows "(width b \<noteq> 0 \<longrightarrow>
            width (adjust_sliders img f b) =
              clamp (py_int (of_int (img_width img) * f)) 0 (limit (image_width b))) \<and>
         (height b \<noteq> 0 \<longrightarrow>
            height (adjust_sliders img f b) =
              clamp (py_int (of_int (img_height img) * f)) 0 (limit (image_height b))) \<and>
         (0 \<le> img_width img \<longrightarrow>
            py_int (of_int (img_width img) * f) = \<lfloor>of_int (img_width img) * f\<rfloor>) \<and>
         (0 \<le> img_height img \<longrightarrow>
            py_int (of_int (img_height img) * f) = \<lfloor>of_int (img_height img) * f\<rfloor>) \<and>
         (img_width img = 800 \<and> img_height img = 600 \<and> width b = 800 \<and> height b = 600 \<longrightarrow>
            (f = 1 / 2 \<longrightarrow>
               width (adjust_sliders img f b) = 400 \<and> height (adjust_sliders img f b) = 300) \<and>
            (f = 2 \<longrightarrow>
               width (adjust_sliders img f b) = min 1600 (limit (image_width b)) \<and>
               height (adjust_sliders img f b) = min 1200 (limit (image_height b))))"
proof -
  from ok have w: "0 \<le> width b" and h: "0 \<le> height b"
    and wl: "width b \<le> limit (image_width b)" and hl: "height b \<le> limit (image_height b)"
    by (simp_all add: panel_ok_def slider_ok_def width_def height_def)
  from f have fpos: "0 \<le> f"
    by (rule factors_nonneg)
  have 1: "width b \<noteq> 0 \<longrightarrow> width (adjust_sliders img f b) =
              clamp (py_int (of_int (img_width img) * f)) 0 (limit (image_width b))"
    using w by (simp add: adjust_width_pos)
  have 2: "height b \<noteq> 0 \<longrightarrow> height (adjust_sliders img f b) =
              clamp (py_int (of_int (img_height img) * f)) 0 (limit (image_height b))"
    using h by (simp add: adjust_height_pos)
  have 3: "0 \<le> img_width img \<longrightarrow>
            py_int (of_int (img_width img) * f) = \<lfloor>of_int (img_width img) * f\<rfloor>"
    using fpos by (simp add: py_int_floor)
  have 4: "0 \<le> img_height img \<longrightarrow>
            py_int (of_int (img_height img) * f) = \<lfloor>of_int (img_height img) * f\<rfloor>"
    using fpos by (simp add: py_int_floor)
  have 5: "img_width img = 800 \<and> img_height img = 600 \<and> width b = 800 \<and> height b = 600 \<longrightarrow>
            (f = 1 / 2 \<longrightarrow>
               width (adjust_sliders img f b) = 400 \<and> height (adjust_sliders img f b) = 300) \<and>
            (f = 2 \<longrightarrow>
               width (adjust_sliders img f b) = min 1600 (limit (image_width b)) \<and>
               height (adjust_sliders img f b) = min 1200 (limit (image_height b)))"
    using wl hl by (auto simp only: adjust_example)
  from 1 2 3 4 5 show ?thesis by blast
qed

theorem adjust_sliders_truncates_witness:
  "panel_ok (set_height (set_width (new_ImageSliderBox 1000 1000) 800) 600) \<and>
   1 / 2 \<in> set factors \<and>
   width (adjust_sliders \<lparr>img_width = 800, img_height = 600\<rparr> (1 / 2)
     (set_height (set_width (new_ImageSliderBox 1000 1000) 800) 600)) = 400 \<and>
   height (adjust_sliders \<lparr>img_width = 800, img_height = 600\<rparr> (1 / 2)
     (set_height (set_width (new_ImageSliderBox 1000 1000) 800) 600)) = 300"
proof -
  let ?b = "set_height (set_width (new_ImageSliderBox 1000 1000) 800) 600"
  let ?img = "\<lparr>img_width = 800, img_height = 600\<rparr>"
  have ok: "panel_ok ?b"
    by code_simp
  have f: "1 / 2 \<in> set factors"
    by (simp add: factors_def)
  have b: "width ?b = 800" "height ?b = 600"
    by code_simp+
  note t = adjust_sliders_truncates [OF ok f, of ?img]
  from t [THEN conjunct2, THEN conjunct2, THEN conjunct2, THEN conjunct2] b
  have "width (adjust_sliders ?img (1 / 2) ?b) = 400 \<and> height (adjust_sliders ?img (1 / 2) ?b) = 300"
    by simp
  with ok f show ?thesis by blast
qed

text \<open>
  The claim C1 as the specification words it, with \<open>round\<close>, fails: the original width
  15 with factor \<open>1/8\<close> gives 1 (the product is \<open>1.875\<close>, which every rounding takes to
  2); and with sliders limited to \<open>800 x 600\<close>, factor 2 leaves the panel of the spec's
  own example at \<open>800 x 600\<close>, not \<open>1600 x 1200\<close>.
\<close>

theorem adjust_sliders_round_counterexample:
  "1 / 8 \<in> set factors \<and>
   width (set_height (set_width (new_ImageSliderBox 800 600) 800) 600) \<noteq> 0 \<and>
   width (adjust_sliders \<lparr>img_width = 15, img_height = 15\<rparr> (1 / 8)
     (set_height (set_width (new_ImageSliderBox 800 600) 800) 600)) = 1 \<and>
   round (of_int 15 * (1 / 8) :: rat) = 2 \<and>
   2 \<in> set factors \<and>
   width (adjust_sliders \<lparr>img_width = 800, img_height = 600\<rparr> 2
     (set_height (set_width (new_ImageSliderBox 800 600) 800) 600)) = 800 \<and>
   round (of_int 800 * 2 :: rat) = 1600"
  by code_simp

text \<open>
  C3. For every factor of the button grid and every original image size: a width of 0
  before the press is a width of 0 after it, the same for the height, and with both at 0
  the press leaves the whole panel as it was.
\<close>

theorem adjust_sliders_preserves_auto:
  assumes "f \<in> set factors"
  shows "(width b = 0 \<longrightarrow> width (adjust_sliders img f b) = 0) \<and>
         (height b = 0 \<longrightarrow> height (adjust_sliders img f b) = 0) \<and>
         (width b = 0 \<and> height b = 0 \<longrightarrow> adjust_sliders img f b = b)"
proof (intro conjI impI)
  assume "width b = 0"
  then have "\<not> 0 < width b" by simp
  then have "width (adjust_sliders img f b) = width b"
    by (rule adjust_width_nonpos)
  with \<open>width b = 0\<close> show "width (adjust_sliders img f b) = 0" by simp
next
  assume "height b = 0"
  then have "\<not> 0 < height b" by simp
  then have "height (adjust_sliders img f b) = height b"
    by (rule adjust_height_nonpos)
  with \<open>height b = 0\<close> show "height (adjust_sliders img f b) = 0" by simp
next
  assume "width b = 0 \<and> height b = 0"
  then have "\<not> 0 < width b" and "\<not> 0 < height b" by simp_all
  then show "adjust_sliders img f b = b"
    by (rule adjust_noop)
qed

theorem adjust_sliders_preserves_auto_witness:
  "1 / 8 \<in> set factors \<and>
   width (set_height (new_ImageSliderBox 800 600) 600) = 0 \<and>
   width (adjust_sliders \<lparr>img_width = 800, img_height = 600\<rparr> (1 / 8)
     (set_height (new_ImageSliderBox 800 600) 600)) = 0 \<and>
   height (adjust_sliders \<lparr>img_width = 800, img_height = 600\<rparr> (1 / 8)
     (set_height (new_ImageSliderBox 800 600) 600)) = 75 \<and>
   adjust_sliders \<lparr>img_width = 800, img_height = 600\<rparr> (1 / 8) (new_ImageSliderBox 800 600) =
     new_ImageSliderBox 800 600"
proof -
  let ?b = "set_height (new_ImageSliderBox 800 600) 600"
  let ?z = "new_ImageSliderBox 800 600"
  let ?img = "\<lparr>img_width = 800, img_height = 600\<rparr>"
  have f: "1 / 8 \<in> set factors"
    by (simp add: factors_def)
  have b: "width ?b = 0" "width ?z = 0" "height ?z = 0"
    by code_simp+
  have h: "height (adjust_sliders ?img (1 / 8) ?b) = 75"
    by code_simp
  from adjust_sliders_preserves_auto [OF f, of ?b ?img] b
  have 1: "width (adjust_sliders ?img (1 / 8) ?b) = 0"
    by simp
  from adjust_sliders_preserves_auto [OF f, of ?z ?img] b
  have 2: "adjust_sliders ?img (1 / 8) ?z = ?z"
    by simp
  from f b h 1 2 show ?thesis by blast
qed

subsection \<open>Repeated presses\<close>

lemma adjust_idem: "adjust_sliders img f (adjust_sliders img f b) = adjust_sliders img f b"
proof -
  let ?c = "adjust_sliders img f b"
  have w: "0 < width ?c \<Longrightarrow>
      width ?c = clamp (py_int (of_int (img_width img) * f)) 0 (limit (image_width ?c))"
    by (cases "0 < width b") (simp_all add: adjust_width_pos adjust_width_nonpos adjust_limit_width)
  have h: "0 < height ?c \<Longrightarrow>
      height ?c = clamp (py_int (of_int (img_height img) * f)) 0 (limit (image_height ?c))"
    by (cases "0 < height b")
      (simp_all add: adjust_height_pos adjust_height_nonpos adjust_limit_height)
  have s1: "(if 0 < width ?c then set_width ?c (py_int (of_int (img_width img) * f)) else ?c) = ?c"
    using w by (simp add: set_width_same)
  show ?thesis
    unfolding adjust_sliders_def [of img f ?c] Let_def s1
    using h by (simp add: set_height_same)
qed

lemma press_all_width_zero: "width b = 0 \<Longrightarrow> width (press_all img fs b) = 0"
  by (induction fs arbitrary: b) (simp_all add: adjust_width_nonpos)

lemma press_all_height_zero: "height b = 0 \<Longrightarrow> height (press_all img fs b) = 0"
  by (induction fs arbitrary: b) (simp_all add: adjust_height_nonpos)

text \<open>
  C9. Scale presses do not compound. Pressing the same factor twice leaves the panel as
  pressing it once does (whatever the first press produced); and a dimension that is
  non-zero before the press is afterwards a function of the original image, the factor
  and the slider's limit alone: two panels with the same limit and any two positive
  widths (heights) show the same width (height) after the press.
\<close>

theorem adjust_sliders_no_compounding:
  "adjust_sliders img f (adjust_sliders img f b) = adjust_sliders img f b \<and>
   (0 < width b \<and> 0 < width b' \<and> limit (image_width b) = limit (image_width b') \<longrightarrow>
      width (adjust_sliders img f b) = width (adjust_sliders img f b')) \<and>
   (0 < height b \<and> 0 < height b' \<and> limit (image_height b) = limit (image_height b') \<longrightarrow>
      height (adjust_sliders img f b) = height (adjust_sliders img f b'))"
proof (intro conjI impI)
  show "adjust_sliders img f (adjust_sliders img f b) = adjust_sliders img f b"
    by (rule adjust_idem)
next
  assume "0 < width b \<and> 0 < width b' \<and> limit (image_width b) = limit (image_width b')"
  then show "width (adjust_sliders img f b) = width (adjust_sliders img f b')"
    by (simp add: adjust_width_pos)
next
  assume "0 < height b \<and> 0 < height b' \<and> limit (image_height b) = limit (image_height b')"
  then show "height (adjust_sliders img f b) = height (adjust_sliders img f b')"
    by (simp add: adjust_height_pos)
qed

theorem adjust_sliders_no_compounding_witness:
  "adjust_sliders \<lparr>img_width = 800, img_height = 600\<rparr> (3 / 2)
     (adjust_sliders \<lparr>img_width = 800, img_height = 600\<rparr> (3 / 2)
        (set_height (set_width (new_ImageSliderBox 2000 2000) 100) 50)) =
   adjust_sliders \<lparr>img_width = 800, img_height = 600\<rparr> (3 / 2)
     (set_height (set_width (new_ImageSliderBox 2000 2000) 100) 50) \<and>
   width (adjust_sliders \<lparr>img_width = 800, img_height = 600\<rparr> (3 / 2)
     (set_height (set_width (new_ImageSliderBox 2000 2000) 100) 50)) = 1200 \<and>
   width (adjust_sliders \<lparr>img_width = 800, img_height = 600\<rparr> (3 / 2)
     (set_height (set_width (new_ImageSliderBox 2000 2000) 7) 0)) = 1200"
proof -
  let ?b = "set_height (set_width (new_ImageSliderBox 2000 2000) 100) 50"
  let ?b' = "set_height (set_width (new_ImageSliderBox 2000 2000) 7) 0"
  let ?img = "\<lparr>img_width = 800, img_height = 600\<rparr>"
  have p: "0 < width ?b" "0 < width ?b'" "limit (image_width ?b) = limit (image_width ?b')"
    by code_simp+
  have v: "width (adjust_sliders ?img (3 / 2) ?b) = 1200"
    by code_simp
  from adjust_sliders_no_compounding [of ?img "3 / 2" ?b ?b'] p v
  show ?thesis by simp
qed

text \<open>
  C10. A press can turn an explicit dimension into the auto dimension: with an original
  width of 1, the button of factor \<open>1/2\<close> sets any positive panel width to 0 (the
  truncated product), and whatever buttons are pressed afterwards, the width stays 0.
\<close>

theorem adjust_sliders_explicit_becomes_auto:
  assumes "0 < width b" and "img_width img = 1"
  shows "1 / 2 \<in> set factors \<and>
         width (adjust_sliders img (1 / 2) b) = 0 \<and>
         width (press_all img fs (adjust_sliders img (1 / 2) b)) = 0"
proof -
  have e: "py_int (of_int 1 * (1 / 2)) = 0"
    by code_simp
  have z: "width (adjust_sliders img (1 / 2) b) = 0"
    using assms by (simp only: adjust_width_pos e clamp_zero)
  have "1 / 2 \<in> set factors"
    by (simp add: factors_def)
  with z show ?thesis
    by (simp add: press_all_width_zero)
qed

theorem adjust_sliders_explicit_becomes_auto_witness:
  "0 < width (set_height (set_width (new_ImageSliderBox 800 600) 800) 600) \<and>
   width (adjust_sliders \<lparr>img_width = 1, img_height = 1\<rparr> (1 / 2)
     (set_height (set_width (new_ImageSliderBox 800 600) 800) 600)) = 0 \<and>
   width (press_all \<lparr>img_width = 1, img_height = 1\<rparr> [2, 1, 3 / 2]
     (adjust_sliders \<lparr>img_width = 1, img_height = 1\<rparr> (1 / 2)
       (set_height (set_width (new_ImageSliderBox 800 600) 800) 600))) = 0"
proof -
  let ?b = "set_height (set_width (new_ImageSliderBox 800 600) 800) 600"
  let ?img = "\<lparr>img_width = 1, img_height = 1\<rparr>"
  have p: "0 < width ?b"
    by code_simp
  have i: "img_width ?img = 1"
    by simp
  from adjust_sliders_explicit_becomes_auto [OF p i, of "[2, 1, 3 / 2]"] p
  show ?thesis by blast
qed

section \<open>Properties of the panel and of the field names\<close>

lemma slider_ok_set_value: "slider_ok s \<Longrightarrow> set_value s (val s) = s"
  by (simp add: slider_ok_def set_value_def clamp_def)

text \<open>
  C4. Round trip: on a valid panel state (every slider within its bound), loading the
  panel from its own \<^verbatim>\<open>as_dict()\<close> succeeds and leaves the panel as it was, so width,
  height and quality are unchanged.
\<close>

theorem populate_as_dict_roundtrip:
  assumes "panel_ok b"
  shows "populate b (as_dict b) = Inr b \<and>
         (\<forall>b2. populate b (as_dict b) = Inr b2 \<longrightarrow>
            width b2 = width b \<and> height b2 = height b \<and> quality b2 = quality b)"
proof -
  from assms have "populate b (as_dict b) = Inr b"
    by (simp add: populate_def as_dict_def dict_get_def assign_value_def int_arg_def
        panel_ok_def slider_ok_set_value)
  then show ?thesis by simp
qed

theorem populate_as_dict_roundtrip_witness:
  "panel_ok (move_slider Quality 20 (set_height (set_width (new_ImageSliderBox 800 600) 640) 480)) \<and>
   populate (move_slider Quality 20 (set_height (set_width (new_ImageSliderBox 800 600) 640) 480))
     (as_dict (move_slider Quality 20 (set_height (set_width (new_ImageSliderBox 800 600) 640) 480))) =
   Inr (move_slider Quality 20 (set_height (set_width (new_ImageSliderBox 800 600) 640) 480)) \<and>
   width (move_slider Quality 20 (set_height (set_width (new_ImageSliderBox 800 600) 640) 480)) = 640"
proof -
  let ?b = "move_slider Quality 20 (set_height (set_width (new_ImageSliderBox 800 600) 640) 480)"
  have ok: "panel_ok ?b"
    by code_simp
  have w: "width ?b = 640"
    by code_simp
  from populate_as_dict_roundtrip [OF ok] have "populate ?b (as_dict ?b) = Inr ?b"
    by (rule conjunct1)
  with ok w show ?thesis by blast
qed

text \<open>
  C8. For every collection of notes, the empty one included, \<^verbatim>\<open>get_all_keys\<close> returns
  exactly the field names that occur in some note, as a list in ascending order without
  duplicates (so in strictly ascending order).
\<close>

theorem get_all_keys_sorted_union:
  "set (get_all_keys notes) = (\<Union>note \<in> set notes. set (note_keys note)) \<and>
   sorted (get_all_keys notes) \<and>
   distinct (get_all_keys notes) \<and>
   sorted_wrt (<) (get_all_keys notes)"
proof -
  let ?keys = "set (concat (map note_keys notes))"
  have fin: "finite ?keys"
    by simp
  have u: "?keys = (\<Union>note \<in> set notes. set (note_keys note))"
    by simp
  have 1: "set (get_all_keys notes) = (\<Union>note \<in> set notes. set (note_keys note))"
    unfolding get_all_keys_def using fin u by (simp only: set_sorted_list_of_set)
  have 2: "sorted (get_all_keys notes)"
    unfolding get_all_keys_def by (rule sorted_sorted_list_of_set)
  have 3: "distinct (get_all_keys notes)"
    unfolding get_all_keys_def by (rule distinct_sorted_list_of_set)
  from 2 3 have 4: "sorted_wrt (<) (get_all_keys notes)"
    by (simp add: strict_sorted_iff)
  from 1 2 3 4 show ?thesis by blast
qed

theorem get_all_keys_sorted_union_witness:
  "get_all_keys [[(''Front'', ''a''), (''Back'', ''b'')], [(''Front'', ''c''), (''Extra'', [])], []] =
     [''Back'', ''Extra'', ''Front''] \<and>
   sorted (get_all_keys [[(''Front'', ''a''), (''Back'', ''b'')], [(''Front'', ''c''), (''Extra'', [])], []]) \<and>
   distinct (get_all_keys [[(''Front'', ''a''), (''Back'', ''b'')], [(''Front'', ''c''), (''Extra'', [])], []])"
proof -
  let ?notes = "[[(''Front'', ''a''), (''Back'', ''b'')], [(''Front'', ''c''), (''Extra'', [])], []]"
  have v: "get_all_keys ?notes = [''Back'', ''Extra'', ''Front'']"
    by code_simp
  from get_all_keys_sorted_union [of ?notes]
  have "sorted (get_all_keys ?notes) \<and> distinct (get_all_keys ?notes)"
    by blast
  with v show ?thesis by blast
qed

section \<open>Properties of the dialogs\<close>

subsection \<open>What the phases and the controls do and leave alone\<close>

lemma user_input_frame:
  "calls (user_input c d) = calls d \<and> result_code (user_input c d) = result_code d \<and>
   accepted_slot (user_input c d) = accepted_slot d \<and>
   rejected_slot (user_input c d) = rejected_slot d"
  by (simp add: user_input_def split: control_event.splits dialog_class.splits prod.splits)

lemma create_main_layout_effect:
  "create_main_layout d =
     ([MainVBox, Stretch, ButtonBox],
      d\<lparr>calls := calls d @ [Call CreateMainLayout, Return CreateMainLayout]\<rparr>)"
  by (simp add: create_main_layout_def SettingsDialog_create_main_layout_def Let_def
      record_call_def)

lemma populate_main_vbox_effect:
  "calls (populate_main_vbox d) = calls d @ [Call PopulateMainVbox, Return PopulateMainVbox]"
  "main_vbox (populate_main_vbox d) =
     main_vbox d @ [SlidersBox, PresetsEditorBox] @
       (case variant d of
          BulkConvertDialog fs rc \<Rightarrow> [FieldSelectorBox, ReconvertCheckBox]
        | PasteDialog img buttons \<Rightarrow> [ScaleSettingsGroupBox]
        | SettingsMenuDialog ws fp cbs \<Rightarrow> [AdditionalSettingsGroupBox])"
  "sliders (populate_main_vbox d) = sliders d"
  "presets_editor (populate_main_vbox d) = presets_editor d"
  "dialog_layout (populate_main_vbox d) = dialog_layout d"
  "accepted_slot (populate_main_vbox d) = accepted_slot d"
  "rejected_slot (populate_main_vbox d) = rejected_slot d"
  "ok_has_focus (populate_main_vbox d) = ok_has_focus d"
  by (simp_all add: populate_main_vbox_def BulkConvertDialog_populate_main_vbox_def
      PasteDialog_populate_main_vbox_def SettingsMenuDialog_populate_main_vbox_def
      SettingsDialog_populate_main_vbox_def Let_def record_call_def split: dialog_class.splits)

lemma populate_main_vbox_variant:
  "variant (populate_main_vbox d) =
     (case variant d of
        PasteDialog img buttons \<Rightarrow> PasteDialog img (buttons @ create_scale_options_grid)
      | v \<Rightarrow> v)"
  by (simp add: populate_main_vbox_def BulkConvertDialog_populate_main_vbox_def
      PasteDialog_populate_main_vbox_def SettingsMenuDialog_populate_main_vbox_def
      SettingsDialog_populate_main_vbox_def Let_def record_call_def split: dialog_class.splits)

lemma setup_logic_effect:
  "setup_logic d =
     d\<lparr>accepted_slot := True, rejected_slot := True, ok_has_focus := True,
       calls := calls d @ [Call SetupLogic, Return SetupLogic]\<rparr>"
  by (simp add: setup_logic_def SettingsDialog_setup_logic_def record_call_def)

lemma SettingsDialog_set_initial_values_frame:
  "SettingsDialog_set_initial_values cfg d = Inr d' \<Longrightarrow>
     calls d' = calls d \<and> accepted_slot d' = accepted_slot d \<and>
     rejected_slot d' = rejected_slot d \<and> ok_has_focus d' = ok_has_focus d \<and>
     dialog_layout d' = dialog_layout d \<and> main_vbox d' = main_vbox d \<and>
     variant d' = variant d \<and>
     populate (sliders d) cfg = Inr (sliders d') \<and>
     add_items (presets_editor d) (dict_get_default cfg ''saved_presets'' (PList [])) =
       Inr (presets_editor d')"
  by (auto simp: SettingsDialog_set_initial_values_def split: sum.splits)

lemma set_initial_values_all:
  "set_initial_values ext cfg d = Inr d' \<Longrightarrow>
     calls d' = calls d @ [Call SetInitialValues, Return SetInitialValues] \<and>
     accepted_slot d' = accepted_slot d \<and> rejected_slot d' = rejected_slot d \<and>
     ok_has_focus d' = ok_has_focus d \<and>
     dialog_layout d' = dialog_layout d \<and> main_vbox d' = main_vbox d \<and>
     populate (sliders d) cfg = Inr (sliders d') \<and>
     add_items (presets_editor d) (dict_get_default cfg ''saved_presets'' (PList [])) =
       Inr (presets_editor d')"
  by (auto simp: set_initial_values_def BulkConvertDialog_set_initial_values_def Let_def
      SettingsMenuDialog_set_initial_values_def record_call_def
      dest!: SettingsDialog_set_initial_values_frame
      split: dialog_class.splits sum.splits)

lemma set_initial_values_effect:
  assumes "set_initial_values ext cfg d = Inr d'"
  shows "calls d' = calls d @ [Call SetInitialValues, Return SetInitialValues]"
    and "accepted_slot d' = accepted_slot d" and "rejected_slot d' = rejected_slot d"
    and "ok_has_focus d' = ok_has_focus d"
    and "dialog_layout d' = dialog_layout d" and "main_vbox d' = main_vbox d"
    and "populate (sliders d) cfg = Inr (sliders d')"
    and "add_items (presets_editor d) (dict_get_default cfg ''saved_presets'' (PList [])) =
           Inr (presets_editor d')"
  using set_initial_values_all [OF assms] by blast+

lemma setup_ui_effect:
  assumes "setup_ui ext cfg d = Inr d'"
  shows "calls d' = calls d @ setup_calls"
    and "dialog_layout d' = [MainVBox, Stretch, ButtonBox]"
    and "main_vbox d' =
           main_vbox d @ [SlidersBox, PresetsEditorBox] @
             (case variant d of
                BulkConvertDialog fs rc \<Rightarrow> [FieldSelectorBox, ReconvertCheckBox]
              | PasteDialog img buttons \<Rightarrow> [ScaleSettingsGroupBox]
              | SettingsMenuDialog ws fp cbs \<Rightarrow> [AdditionalSettingsGroupBox])"
    and "accepted_slot d'" and "rejected_slot d'" and "ok_has_focus d'"
    and "populate (sliders d) cfg = Inr (sliders d')"
    and "add_items (presets_editor d) (dict_get_default cfg ''saved_presets'' (PList [])) =
           Inr (presets_editor d')"
proof -
  let ?d1 = "setLayout [MainVBox, Stretch, ButtonBox]
      (d\<lparr>calls := calls d @ [Call CreateMainLayout, Return CreateMainLayout]\<rparr>)"
  let ?d3 = "setup_logic (populate_main_vbox ?d1)"
  from assms have l: "set_initial_values ext cfg ?d3 = Inr d'"
    by (simp add: setup_ui_def create_main_layout_effect Let_def)
  note e = set_initial_values_effect [OF l]
  show "calls d' = calls d @ setup_calls"
    using e(1) by (simp add: setup_logic_effect populate_main_vbox_effect setLayout_def
        setup_calls_def)
  show "dialog_layout d' = [MainVBox, Stretch, ButtonBox]"
    using e(5) by (simp add: setup_logic_effect populate_main_vbox_effect setLayout_def)
  show "main_vbox d' =
           main_vbox d @ [SlidersBox, PresetsEditorBox] @
             (case variant d of
                BulkConvertDialog fs rc \<Rightarrow> [FieldSelectorBox, ReconvertCheckBox]
              | PasteDialog img buttons \<Rightarrow> [ScaleSettingsGroupBox]
              | SettingsMenuDialog ws fp cbs \<Rightarrow> [AdditionalSettingsGroupBox])"
    using e(6) by (simp add: setup_logic_effect populate_main_vbox_effect setLayout_def)
  show "accepted_slot d'" and "rejected_slot d'" and "ok_has_focus d'"
    using e(2,3,4) by (simp_all add: setup_logic_effect)
  show "populate (sliders d) cfg = Inr (sliders d')"
    using e(7) by (simp add: setup_logic_effect populate_main_vbox_effect setLayout_def)
  show "add_items (presets_editor d) (dict_get_default cfg ''saved_presets'' (PList [])) =
           Inr (presets_editor d')"
    using e(8) by (simp add: setup_logic_effect populate_main_vbox_effect setLayout_def)
qed

subsection \<open>Loading succeeds on a complete configuration\<close>

lemma populate_total:
  assumes "has_int cfg ''image_width''" "has_int cfg ''image_height''"
    "has_int cfg ''image_quality''"
  shows "\<not> isl (populate b cfg)"
  using assms
  by (auto simp: populate_def has_int_def assign_value_def int_arg_def dict_get_def
      split: option.splits pyval.splits sum.splits)

lemma str_list_total: "list_all is_str xs \<Longrightarrow> \<not> isl (str_list xs)"
  by (induction xs rule: str_list.induct) (auto simp: is_str_def split: sum.splits)

lemma load_checkboxes_total:
  "list_all (\<lambda>kc. has_bool cfg (fst kc)) cbs \<Longrightarrow> \<not> isl (load_checkboxes cfg cbs)"
  by (induction cbs)
    (auto simp: has_bool_def dict_item_def bool_arg_def
      split: option.splits pyval.splits sum.splits)

lemma SettingsDialog_set_initial_values_total:
  assumes "has_int cfg ''image_width''" "has_int cfg ''image_height''"
    "has_int cfg ''image_quality''"
    and "case cfg ''saved_presets'' of None \<Rightarrow> True | Some (PList xs) \<Rightarrow> True | _ \<Rightarrow> False"
  shows "\<not> isl (SettingsDialog_set_initial_values cfg d)"
  using populate_total [OF assms(1-3), of "sliders d"] assms(4)
  by (auto simp: SettingsDialog_set_initial_values_def add_items_def py_iter_def
      dict_get_default_def split: sum.splits option.splits pyval.splits)

lemma set_initial_values_total:
  assumes "config_complete ext cfg (variant d)"
  shows "\<not> isl (set_initial_values ext cfg d)"
proof -
  let ?d0 = "record_call (Call SetInitialValues) d"
  from assms have base: "\<And>d'. \<not> isl (SettingsDialog_set_initial_values cfg d')"
    by (intro SettingsDialog_set_initial_values_total) (simp_all add: config_complete_def)
  have base': "\<And>d' err. SettingsDialog_set_initial_values cfg d' \<noteq> Inl err"
    using base by (metis sum.disc(1))
  show ?thesis
  proof (cases "variant d")
    case (BulkConvertDialog fs rc)
    with assms obtain xs where
      xs: "cfg ''bulk_convert_fields'' = Some (PList xs)" "list_all is_str xs"
      and rb: "has_bool cfg ''bulk_reconvert_webp''"
      by (auto simp: config_complete_def split: option.splits pyval.splits)
    from str_list_total [OF xs(2)] obtain names where "str_list xs = Inr names"
      by (cases "str_list xs") auto
    with xs rb BulkConvertDialog base' show ?thesis
      by (auto simp: set_initial_values_def BulkConvertDialog_set_initial_values_def Let_def
          set_fields_def dict_get_def has_bool_def bool_arg_def
          split: option.splits pyval.splits sum.splits)
  next
    case (PasteDialog img buttons)
    with base' show ?thesis
      by (auto simp: set_initial_values_def Let_def split: sum.splits)
  next
    case (SettingsMenuDialog ws fp cbs)
    obtain d1 where d1: "SettingsDialog_set_initial_values cfg ?d0 = Inr d1"
      using base [of ?d0] by (cases "SettingsDialog_set_initial_values cfg ?d0") auto
    from SettingsDialog_set_initial_values_frame [OF d1] SettingsMenuDialog
    have v1: "variant d1 = SettingsMenuDialog ws fp cbs"
      by (simp add: record_call_def)
    from assms SettingsMenuDialog have
      i: "\<not> isl (index_of ext (dict_get cfg ''show_settings''))"
      and j: "cfg ''filename_pattern_num'' = None \<or> has_int cfg ''filename_pattern_num''"
      and c: "list_all (\<lambda>kc. has_bool cfg (fst kc)) cbs"
      by (simp_all add: config_complete_def)
    from j have j': "\<not> isl (int_arg (dict_get_default cfg ''filename_pattern_num'' (PInt 0)))"
      by (auto simp: has_int_def dict_get_default_def int_arg_def
          split: option.splits pyval.splits)
    from i j' load_checkboxes_total [OF c] d1 v1 SettingsMenuDialog show ?thesis
      by (auto simp: set_initial_values_def SettingsMenuDialog_set_initial_values_def Let_def
          split: sum.splits)
  qed
qed

lemma populate_main_vbox_complete:
  "config_complete ext cfg (variant (populate_main_vbox d)) = config_complete ext cfg (variant d)"
  by (simp add: populate_main_vbox_variant config_complete_def split: dialog_class.splits)

lemma setup_ui_total:
  assumes "config_complete ext cfg (variant d)"
  shows "\<not> isl (setup_ui ext cfg d)"
proof -
  let ?d1 = "setLayout [MainVBox, Stretch, ButtonBox]
      (d\<lparr>calls := calls d @ [Call CreateMainLayout, Return CreateMainLayout]\<rparr>)"
  let ?d3 = "setup_logic (populate_main_vbox ?d1)"
  have "variant ?d3 = variant (populate_main_vbox ?d1)"
    by (simp add: setup_logic_effect)
  with assms have "config_complete ext cfg (variant ?d3)"
    by (simp add: populate_main_vbox_complete) (simp add: setLayout_def)
  from set_initial_values_total [OF this] show ?thesis
    by (simp add: setup_ui_def create_main_layout_effect Let_def)
qed

lemma exec_total: "config_complete ext (config w) (variant d) \<Longrightarrow> \<not> isl (exec ext evs w d)"
  using setup_ui_total [of ext "config w" d] by (auto simp: exec_def split: sum.splits)

subsection \<open>Accepting and rejecting\<close>

lemma SettingsDialog_accept_eq:
  "SettingsDialog_accept w d =
     (w\<lparr>config := (dict_update (config w) (as_dict (sliders d)))
                     (''saved_presets'' \<mapsto> as_list (presets_editor d)),
        config_file := config_file w @
          [(dict_update (config w) (as_dict (sliders d)))
             (''saved_presets'' \<mapsto> as_list (presets_editor d))]\<rparr>,
      d\<lparr>result_code := Some Accepted\<rparr>)"
  by (simp add: SettingsDialog_accept_def Let_def write_config_def QDialog_accept_def)

lemma accept_refused:
  assumes "commit_refused d"
  shows "accept w d =
     (showInfo ''Can't accept settings'' ''No fields selected. Nothing to convert.'' w,
      record_call (Return Accept) (record_call (Call Accept) d))"
  using assms
  by (auto simp: accept_def commit_refused_def BulkConvertDialog_accept_def Let_def
      split: dialog_class.splits)

lemma accept_committed:
  assumes "\<not> commit_refused d" and "accept w d = (w', d')"
  shows "config_file w' = config_file w @ [config w']" and "result_code d' = Some Accepted"
    and "calls d' = calls d @ [Call Accept, Return Accept]" and "info_boxes w' = info_boxes w"
  using assms
  by (auto simp: accept_def commit_refused_def BulkConvertDialog_accept_def
      SettingsMenuDialog_accept_def Let_def SettingsDialog_accept_eq record_call_def
      split: dialog_class.splits prod.splits if_splits)

lemma accept_calls: "calls (snd (accept w d)) = calls d @ [Call Accept, Return Accept]"
proof (cases "commit_refused d")
  case True
  then show ?thesis
    by (simp add: accept_refused record_call_def)
next
  case False
  then show ?thesis
    using accept_committed(3) [of d w] by (cases "accept w d") simp
qed

lemma reject_eq:
  "reject w d =
     (w, d\<lparr>result_code := Some Rejected, calls := calls d @ [Call Reject, Return Reject]\<rparr>)"
  by (simp add: reject_def record_call_def QDialog_reject_def)

text \<open>
  C2. Commit or nothing for the bulk-convert dialog. With the field selector checked and
  no field selected, \<^verbatim>\<open>accept\<close> leaves the configuration map and the store as they were,
  leaves the dialog's result code as it was (the dialog is not accepted and stays open),
  and shows exactly one message box. Otherwise it writes the selected fields and the
  reconvert flag into the configuration and the dialog is accepted.
\<close>

theorem bulk_accept_commit_or_nothing:
  assumes v: "variant d = BulkConvertDialog fs rc" and a: "accept w d = (w', d')"
  shows "(isChecked fs \<and> selected_fields fs = [] \<longrightarrow>
            config w' = config w \<and> config_file w' = config_file w \<and>
            result_code d' = result_code d \<and>
            info_boxes w' =
              info_boxes w @
                [(''Can't accept settings'', ''No fields selected. Nothing to convert.'')]) \<and>
         (\<not> (isChecked fs \<and> selected_fields fs = []) \<longrightarrow>
            config w' ''bulk_convert_fields'' = Some (PList (map PStr (selected_fields fs))) \<and>
            config w' ''bulk_reconvert_webp'' = Some (PBool rc) \<and>
            result_code d' = Some Accepted \<and>
            info_boxes w' = info_boxes w)"
proof (cases "isChecked fs \<and> selected_fields fs = []")
  case True
  with v have "commit_refused d"
    by (simp add: commit_refused_def)
  from accept_refused [OF this, of w] a True show ?thesis
    by (auto simp: showInfo_def record_call_def)
next
  case False
  with v have n: "\<not> commit_refused d"
    by (simp add: commit_refused_def)
  from False v a have
    "config w' ''bulk_convert_fields'' = Some (PList (map PStr (selected_fields fs)))"
    "config w' ''bulk_reconvert_webp'' = Some (PBool rc)"
    by (auto simp: accept_def BulkConvertDialog_accept_def Let_def SettingsDialog_accept_eq
        dict_update_def as_dict_def split: prod.splits)
  with accept_committed [OF n a] False show ?thesis
    by simp
qed

theorem bulk_accept_commit_or_nothing_witness:
  "isChecked \<lparr>enabled = True, available = [''Back'', ''Front''], selected = []\<rparr> \<and>
   selected_fields \<lparr>enabled = True, available = [''Back'', ''Front''], selected = []\<rparr> = [] \<and>
   config (fst (accept example_world (example_bulk_dialog\<lparr>variant := BulkConvertDialog
      \<lparr>enabled = True, available = [''Back'', ''Front''], selected = []\<rparr> True\<rparr>))) =
     config example_world \<and>
   config_file (fst (accept example_world (example_bulk_dialog\<lparr>variant := BulkConvertDialog
      \<lparr>enabled = True, available = [''Back'', ''Front''], selected = []\<rparr> True\<rparr>))) = [] \<and>
   result_code (snd (accept example_world (example_bulk_dialog\<lparr>variant := BulkConvertDialog
      \<lparr>enabled = True, available = [''Back'', ''Front''], selected = []\<rparr> True\<rparr>))) = None \<and>
   info_boxes (fst (accept example_world (example_bulk_dialog\<lparr>variant := BulkConvertDialog
      \<lparr>enabled = True, available = [''Back'', ''Front''], selected = []\<rparr> True\<rparr>))) =
     [(''Can't accept settings'', ''No fields selected. Nothing to convert.'')]"
proof -
  let ?fs = "\<lparr>enabled = True, available = [''Back'', ''Front''], selected = []\<rparr>"
  let ?d = "example_bulk_dialog\<lparr>variant := BulkConvertDialog ?fs True\<rparr>"
  have c: "isChecked ?fs" "selected_fields ?fs = []"
    by code_simp+
  have v: "variant ?d = BulkConvertDialog ?fs True"
    by simp
  have a: "accept example_world ?d = (fst (accept example_world ?d), snd (accept example_world ?d))"
    by simp
  have i: "config_file example_world = []" "info_boxes example_world = []"
    "result_code ?d = None"
    by code_simp+
  from bulk_accept_commit_or_nothing [OF v a] c i show ?thesis
    by simp
qed

text \<open>
  C7 (as amended). The commit phase persists by itself: \<^verbatim>\<open>accept\<close> on an open dialog,
  when it accepts, has called \<^verbatim>\<open>write_config()\<close> exactly once, after its last write to
  the configuration map, so the store holds the committed map when \<^verbatim>\<open>exec\<close> returns to
  the caller. When it does not accept, neither the map nor the store has changed.
\<close>

theorem accept_persists_config:
  assumes o: "result_code d = None" and a: "accept w d = (w', d')"
  shows "(result_code d' = Some Accepted \<longrightarrow> config_file w' = config_file w @ [config w']) \<and>
         (result_code d' \<noteq> Some Accepted \<longrightarrow>
            config_file w' = config_file w \<and> config w' = config w)"
proof (cases "commit_refused d")
  case True
  from accept_refused [OF this, of w] a o show ?thesis
    by (auto simp: showInfo_def record_call_def)
next
  case False
  from accept_committed [OF False a] show ?thesis
    by simp
qed

theorem accept_persists_config_witness:
  "result_code example_paste_dialog = None \<and>
   result_code (snd (accept example_world example_paste_dialog)) = Some Accepted \<and>
   config_file (fst (accept example_world example_paste_dialog)) =
     config_file example_world @ [config (fst (accept example_world example_paste_dialog))]"
proof -
  let ?r = "accept example_world example_paste_dialog"
  have o: "result_code example_paste_dialog = None"
    by code_simp
  have a: "?r = (fst ?r, snd ?r)"
    by simp
  have c: "result_code (snd ?r) = Some Accepted"
    by code_simp
  from accept_persists_config [OF o a] o c show ?thesis
    by simp
qed

text \<open>
  The claim C7 as the specification words it fails: the caller that runs a paste dialog
  on an empty store and clicks Ok finds, when \<^verbatim>\<open>exec\<close> returns, that the dialog has
  written the store once, with the committed values.
\<close>

theorem accept_persists_counterexample:
  "config_file example_world = [] \<and>
   \<not> isl (exec example_externals [OkClicked] example_world example_paste_dialog) \<and>
   result_code (snd (projr (exec example_externals [OkClicked] example_world
      example_paste_dialog))) = Some Accepted \<and>
   map (\<lambda>c. (c ''image_height'', c ''image_quality''))
     (config_file (fst (projr (exec example_externals [OkClicked] example_world
        example_paste_dialog)))) = [(Some (PInt 200), Some (PInt 20))]"
  by code_simp

subsection \<open>The event loop\<close>

lemma handle_calls:
  "\<exists>rest. calls (snd (handle e (w, d))) = calls d @ rest \<and> set rest \<subseteq> commit_calls"
proof (cases e)
  case (Control c)
  then show ?thesis
    by (simp add: user_input_frame)
next
  case OkClicked
  then show ?thesis
    by (simp add: accept_calls commit_calls_def)
next
  case CancelClicked
  then show ?thesis
    by (simp add: reject_eq commit_calls_def)
qed

lemma event_loop_calls:
  "\<exists>rest. calls (snd (event_loop evs (w, d))) = calls d @ rest \<and> set rest \<subseteq> commit_calls"
proof (induction evs arbitrary: w d)
  case Nil
  then show ?case by simp
next
  case (Cons e es)
  show ?case
  proof (cases "result_code d \<noteq> None")
    case True
    then show ?thesis by simp
  next
    case False
    obtain w1 d1 where h: "handle e (w, d) = (w1, d1)"
      by (cases "handle e (w, d)")
    from handle_calls [of e w d] h obtain r1 where
      r1: "calls d1 = calls d @ r1" "set r1 \<subseteq> commit_calls"
      by auto
    from Cons.IH [of w1 d1] obtain r2 where
      r2: "calls (snd (event_loop es (w1, d1))) = calls d1 @ r2" "set r2 \<subseteq> commit_calls"
      by auto
    from False h r1 r2 have
      "calls (snd (event_loop (e # es) (w, d))) = calls d @ (r1 @ r2) \<and>
       set (r1 @ r2) \<subseteq> commit_calls"
      by simp
    then show ?thesis by blast
  qed
qed

lemma event_loop_controls:
  assumes "result_code d = None"
  shows "\<exists>d1. event_loop (map Control cs @ rest) (w, d) = event_loop rest (w, d1) \<and>
           result_code d1 = None \<and> rejected_slot d1 = rejected_slot d \<and>
           accepted_slot d1 = accepted_slot d"
  using assms
proof (induction cs arbitrary: d)
  case Nil
  then show ?case
    by (intro exI [of _ d]) simp
next
  case (Cons c cs)
  from Cons.prems have "result_code (user_input c d) = None"
    by (simp add: user_input_frame)
  from Cons.IH [OF this] Cons.prems show ?case
    by (simp add: user_input_frame)
qed

text \<open>
  C5. Cancellation has no side effects. For a dialog of any class: when \<^verbatim>\<open>exec\<close> sets
  the dialog up and the user then changes controls in any way and any number of times
  (sliders, check boxes, fields, combo boxes, scale buttons) and clicks Cancel, the
  dialog is rejected and the world outside it is what it was: the configuration map is
  unchanged, nothing was written to the store, no message was shown.
\<close>

theorem cancel_has_no_side_effects:
  assumes "exec ext (map Control cs @ CancelClicked # later) w d = Inr (w', d')"
  shows "w' = w \<and> config w' = config w \<and> config_file w' = config_file w \<and>
         result_code d' = Some Rejected"
proof -
  from assms obtain d1 where s: "setup_ui ext (config w) d = Inr d1"
    and r: "QDialog_exec (map Control cs @ CancelClicked # later) w d1 = (w', d')"
    by (auto simp: exec_def split: sum.splits)
  let ?d2 = "record_call (Call QDialogExec) (d1\<lparr>result_code := None\<rparr>)"
  from setup_ui_effect(5) [OF s] have slot: "rejected_slot ?d2"
    by (simp add: record_call_def)
  have open2: "result_code ?d2 = None"
    by (simp add: record_call_def)
  from event_loop_controls [OF open2, of cs "CancelClicked # later" w] slot
  obtain d3 where d3: "event_loop (map Control cs @ CancelClicked # later) (w, ?d2) =
      event_loop (CancelClicked # later) (w, d3)" "result_code d3 = None" "rejected_slot d3"
    by auto
  have "event_loop (CancelClicked # later) (w, d3) =
      (w, d3\<lparr>result_code := Some Rejected, calls := calls d3 @ [Call Reject, Return Reject]\<rparr>)"
    using d3(2,3) by (cases later) (simp_all add: reject_eq)
  with d3(1) r show ?thesis
    by (simp add: QDialog_exec_def)
qed

theorem cancel_has_no_side_effects_witness:
  "\<not> isl (exec example_externals
      (map Control [SliderMoved Width 300, ScaleButtonClicked 5, SliderMoved Quality 90] @
       CancelClicked # [OkClicked]) example_world example_paste_dialog) \<and>
   fst (projr (exec example_externals
      (map Control [SliderMoved Width 300, ScaleButtonClicked 5, SliderMoved Quality 90] @
       CancelClicked # [OkClicked]) example_world example_paste_dialog)) = example_world \<and>
   width (sliders (snd (projr (exec example_externals
      (map Control [SliderMoved Width 300, ScaleButtonClicked 5, SliderMoved Quality 90] @
       CancelClicked # [OkClicked]) example_world example_paste_dialog)))) = 800 \<and>
   result_code (snd (projr (exec example_externals
      (map Control [SliderMoved Width 300, ScaleButtonClicked 5, SliderMoved Quality 90] @
       CancelClicked # [OkClicked]) example_world example_paste_dialog))) = Some Rejected"
proof -
  let ?r = "exec example_externals
      (map Control [SliderMoved Width 300, ScaleButtonClicked 5, SliderMoved Quality 90] @
       CancelClicked # [OkClicked]) example_world example_paste_dialog"
  have n: "\<not> isl ?r"
    by code_simp
  then have e: "?r = Inr (fst (projr ?r), snd (projr ?r))"
    by (cases ?r) simp_all
  have s: "width (sliders (snd (projr ?r))) = 800"
    by code_simp
  from cancel_has_no_side_effects [OF e] n s show ?thesis
    by blast
qed

lemma exec_shown:
  assumes "exec ext evs w d = Inr (w', d')"
  shows "\<exists>d1. setup_ui ext (config w) d = Inr d1 \<and>
           exec ext [] w d =
             Inr (w, record_call (Call QDialogExec) (d1\<lparr>result_code := None\<rparr>)) \<and>
           event_loop evs (w, record_call (Call QDialogExec) (d1\<lparr>result_code := None\<rparr>)) =
             (w', d')"
  using assms by (auto simp: exec_def QDialog_exec_def split: sum.splits)

text \<open>
  C6. Lifecycle ordering. For a dialog of any class and any events of the user, a run of
  \<^verbatim>\<open>exec\<close> that shows the dialog has gone through the four phases in order, each once and
  each left before the next is entered, and only then shown the dialog: this is what the
  method calls have written into the history up to the moment the dialog is shown, and
  at that moment the effect of every phase is there, once: the layout is built, the
  sections of the base class and then those of the dialog's class are in it, both signals
  are wired and Ok has the focus, the sliders show the configuration's values and the
  presets are added. Whatever the user's events do starts from that state, and all they
  add to the history is \<^verbatim>\<open>accept\<close> and \<^verbatim>\<open>reject\<close>: no commit comes before the initial values
  are loaded, and no phase runs a second time. On a complete configuration \<^verbatim>\<open>exec\<close> does
  show the dialog.
\<close>

theorem exec_runs_phases_in_order:
  "(config_complete ext (config w) (variant d) \<longrightarrow> \<not> isl (exec ext evs w d)) \<and>
   (\<forall>w' d'. exec ext evs w d = Inr (w', d') \<longrightarrow>
      (\<exists>d0 rest.
         exec ext [] w d = Inr (w, d0) \<and>
         event_loop evs (w, d0) = (w', d') \<and>
         calls d0 =
           calls d @
           [Call CreateMainLayout, Return CreateMainLayout,
            Call PopulateMainVbox, Return PopulateMainVbox,
            Call SetupLogic, Return SetupLogic,
            Call SetInitialValues, Return SetInitialValues,
            Call QDialogExec] \<and>
         calls d' = calls d0 @ rest \<and>
         set rest \<subseteq> {Call Accept, Return Accept, Call Reject, Return Reject} \<and>
         dialog_layout d0 = [MainVBox, Stretch, ButtonBox] \<and>
         main_vbox d0 =
           main_vbox d @ [SlidersBox, PresetsEditorBox] @
             (case variant d of
                BulkConvertDialog fs rc \<Rightarrow> [FieldSelectorBox, ReconvertCheckBox]
              | PasteDialog img buttons \<Rightarrow> [ScaleSettingsGroupBox]
              | SettingsMenuDialog ws fp cbs \<Rightarrow> [AdditionalSettingsGroupBox]) \<and>
         accepted_slot d0 \<and> rejected_slot d0 \<and> ok_has_focus d0 \<and>
         result_code d0 = None \<and>
         populate (sliders d) (config w) = Inr (sliders d0) \<and>
         add_items (presets_editor d) (dict_get_default (config w) ''saved_presets'' (PList [])) =
           Inr (presets_editor d0)))"
proof (intro conjI allI impI)
  assume "config_complete ext (config w) (variant d)"
  then show "\<not> isl (exec ext evs w d)"
    by (rule exec_total)
next
  fix w' d'
  assume "exec ext evs w d = Inr (w', d')"
  from exec_shown [OF this] obtain d1 where s: "setup_ui ext (config w) d = Inr d1"
    and x: "exec ext [] w d =
        Inr (w, record_call (Call QDialogExec) (d1\<lparr>result_code := None\<rparr>))"
    and r: "event_loop evs (w, record_call (Call QDialogExec) (d1\<lparr>result_code := None\<rparr>)) =
        (w', d')"
    by blast
  let ?d0 = "record_call (Call QDialogExec) (d1\<lparr>result_code := None\<rparr>)"
  note e = setup_ui_effect [OF s]
  have c0: "calls ?d0 =
      calls d @
      [Call CreateMainLayout, Return CreateMainLayout,
       Call PopulateMainVbox, Return PopulateMainVbox,
       Call SetupLogic, Return SetupLogic,
       Call SetInitialValues, Return SetInitialValues,
       Call QDialogExec]"
    using e(1) by (simp add: record_call_def setup_calls_def)
  from event_loop_calls [of evs w ?d0] r obtain rest where
    rest: "calls d' = calls ?d0 @ rest"
      "set rest \<subseteq> {Call Accept, Return Accept, Call Reject, Return Reject}"
    by (auto simp: commit_calls_def)
  have l: "dialog_layout ?d0 = [MainVBox, Stretch, ButtonBox]"
    using e(2) by (simp add: record_call_def)
  have m: "main_vbox ?d0 =
      main_vbox d @ [SlidersBox, PresetsEditorBox] @
        (case variant d of
           BulkConvertDialog fs rc \<Rightarrow> [FieldSelectorBox, ReconvertCheckBox]
         | PasteDialog img buttons \<Rightarrow> [ScaleSettingsGroupBox]
         | SettingsMenuDialog ws fp cbs \<Rightarrow> [AdditionalSettingsGroupBox])"
    using e(3) by (simp add: record_call_def)
  have g: "accepted_slot ?d0" "rejected_slot ?d0" "ok_has_focus ?d0" "result_code ?d0 = None"
    using e(4,5,6) by (simp_all add: record_call_def)
  have p: "populate (sliders d) (config w) = Inr (sliders ?d0)"
    using e(7) by (simp add: record_call_def)
  have q: "add_items (presets_editor d) (dict_get_default (config w) ''saved_presets'' (PList [])) =
      Inr (presets_editor ?d0)"
    using e(8) by (simp add: record_call_def)
  from x r c0 rest l m g p q
  show "\<exists>d0 rest.
         exec ext [] w d = Inr (w, d0) \<and>
         event_loop evs (w, d0) = (w', d') \<and>
         calls d0 =
           calls d @
           [Call CreateMainLayout, Return CreateMainLayout,
            Call PopulateMainVbox, Return PopulateMainVbox,
            Call SetupLogic, Return SetupLogic,
            Call SetInitialValues, Return SetInitialValues,
            Call QDialogExec] \<and>
         calls d' = calls d0 @ rest \<and>
         set rest \<subseteq> {Call Accept, Return Accept, Call Reject, Return Reject} \<and>
         dialog_layout d0 = [MainVBox, Stretch, ButtonBox] \<and>
         main_vbox d0 =
           main_vbox d @ [SlidersBox, PresetsEditorBox] @
             (case variant d of
                BulkConvertDialog fs rc \<Rightarrow> [FieldSelectorBox, ReconvertCheckBox]
              | PasteDialog img buttons \<Rightarrow> [ScaleSettingsGroupBox]
              | SettingsMenuDialog ws fp cbs \<Rightarrow> [AdditionalSettingsGroupBox]) \<and>
         accepted_slot d0 \<and> rejected_slot d0 \<and> ok_has_focus d0 \<and>
         result_code d0 = None \<and>
         populate (sliders d) (config w) = Inr (sliders d0) \<and>
         add_items (presets_editor d) (dict_get_default (config w) ''saved_presets'' (PList [])) =
           Inr (presets_editor d0)"
    by blast
qed

theorem exec_runs_phases_in_order_witness:
  "config_complete example_externals (config example_world) (variant example_menu_dialog) \<and>
   \<not> isl (exec example_externals
      [Control (CheckboxToggled ''copy_paste'' True), Control (ShowDialogChosen 1), OkClicked]
      example_world example_menu_dialog) \<and>
   (\<exists>d0 rest.
      exec example_externals [] example_world example_menu_dialog = Inr (example_world, d0) \<and>
      event_loop
        [Control (CheckboxToggled ''copy_paste'' True), Control (ShowDialogChosen 1), OkClicked]
        (example_world, d0) =
        projr (exec example_externals
          [Control (CheckboxToggled ''copy_paste'' True), Control (ShowDialogChosen 1), OkClicked]
          example_world example_menu_dialog) \<and>
      calls d0 =
        calls example_menu_dialog @
        [Call CreateMainLayout, Return CreateMainLayout,
         Call PopulateMainVbox, Return PopulateMainVbox,
         Call SetupLogic, Return SetupLogic,
         Call SetInitialValues, Return SetInitialValues,
         Call QDialogExec] \<and>
      calls (snd (projr (exec example_externals
        [Control (CheckboxToggled ''copy_paste'' True), Control (ShowDialogChosen 1), OkClicked]
        example_world example_menu_dialog))) = calls d0 @ rest \<and>
      set rest \<subseteq> {Call Accept, Return Accept, Call Reject, Return Reject} \<and>
      dialog_layout d0 = [MainVBox, Stretch, ButtonBox] \<and>
      accepted_slot d0 \<and> rejected_slot d0 \<and> ok_has_focus d0 \<and> result_code d0 = None \<and>
      populate (sliders example_menu_dialog) (config example_world) = Inr (sliders d0)) \<and>
   calls (snd (projr (exec example_externals
      [Control (CheckboxToggled ''copy_paste'' True), Control (ShowDialogChosen 1), OkClicked]
      example_world example_menu_dialog))) =
     [Call CreateMainLayout, Return CreateMainLayout,
      Call PopulateMainVbox, Return PopulateMainVbox,
      Call SetupLogic, Return SetupLogic,
      Call SetInitialValues, Return SetInitialValues,
      Call QDialogExec, Call Accept, Return Accept] \<and>
   dialog_layout (snd (projr (exec example_externals [] example_world example_menu_dialog))) =
     [MainVBox, Stretch, ButtonBox] \<and>
   main_vbox (snd (projr (exec example_externals [] example_world example_menu_dialog))) =
     [SlidersBox, PresetsEditorBox, AdditionalSettingsGroupBox] \<and>
   height (sliders (snd (projr (exec example_externals [] example_world example_menu_dialog)))) =
     200 \<and>
   map (\<lambda>c. (c ''image_height'', c ''copy_paste'', c ''show_settings''))
     (config_file (fst (projr (exec example_externals
        [Control (CheckboxToggled ''copy_paste'' True), Control (ShowDialogChosen 1), OkClicked]
        example_world example_menu_dialog)))) =
     [(Some (PInt 200), Some (PBool True), Some (PStr ''never''))]"
proof -
  let ?evs = "[Control (CheckboxToggled ''copy_paste'' True), Control (ShowDialogChosen 1),
      OkClicked]"
  let ?r = "exec example_externals ?evs example_world example_menu_dialog"
  let ?s = "exec example_externals [] example_world example_menu_dialog"
  note t = exec_runs_phases_in_order [of example_externals example_world example_menu_dialog ?evs]
  have c: "config_complete example_externals (config example_world) (variant example_menu_dialog)"
    by code_simp
  from t [THEN conjunct1] c have n: "\<not> isl ?r"
    by (rule mp)
  then have e: "?r = Inr (fst (projr ?r), snd (projr ?r))"
    by (cases ?r) simp_all
  from t [THEN conjunct2, rule_format, OF e] obtain d0 rest where
    x1: "exec example_externals [] example_world example_menu_dialog = Inr (example_world, d0)"
    and x2: "event_loop ?evs (example_world, d0) = (fst (projr ?r), snd (projr ?r))"
    and x3: "calls d0 =
        calls example_menu_dialog @
        [Call CreateMainLayout, Return CreateMainLayout,
         Call PopulateMainVbox, Return PopulateMainVbox,
         Call SetupLogic, Return SetupLogic,
         Call SetInitialValues, Return SetInitialValues,
         Call QDialogExec]"
    and x4: "calls (snd (projr ?r)) = calls d0 @ rest"
    and x5: "set rest \<subseteq> {Call Accept, Return Accept, Call Reject, Return Reject}"
    and x6: "dialog_layout d0 = [MainVBox, Stretch, ButtonBox]"
    and x7: "accepted_slot d0" "rejected_slot d0" "ok_has_focus d0" "result_code d0 = None"
    and x8: "populate (sliders example_menu_dialog) (config example_world) = Inr (sliders d0)"
    by blast
  from x2 have x2': "event_loop ?evs (example_world, d0) = projr ?r"
    by (simp only: prod.collapse)
  from x1 x2' x3 x4 x5 x6 x7 x8 have x: "\<exists>d0 rest.
      exec example_externals [] example_world example_menu_dialog = Inr (example_world, d0) \<and>
      event_loop ?evs (example_world, d0) = projr ?r \<and>
      calls d0 =
        calls example_menu_dialog @
        [Call CreateMainLayout, Return CreateMainLayout,
         Call PopulateMainVbox, Return PopulateMainVbox,
         Call SetupLogic, Return SetupLogic,
         Call SetInitialValues, Return SetInitialValues,
         Call QDialogExec] \<and>
      calls (snd (projr ?r)) = calls d0 @ rest \<and>
      set rest \<subseteq> {Call Accept, Return Accept, Call Reject, Return Reject} \<and>
      dialog_layout d0 = [MainVBox, Stretch, ButtonBox] \<and>
      accepted_slot d0 \<and> rejected_slot d0 \<and> ok_has_focus d0 \<and> result_code d0 = None \<and>
      populate (sliders example_menu_dialog) (config example_world) = Inr (sliders d0)"
    by blast
  have v: "calls (snd (projr ?r)) =
     [Call CreateMainLayout, Return CreateMainLayout,
      Call PopulateMainVbox, Return PopulateMainVbox,
      Call SetupLogic, Return SetupLogic,
      Call SetInitialValues, Return SetInitialValues,
      Call QDialogExec, Call Accept, Return Accept]"
    by code_simp
  have l: "dialog_layout (snd (projr ?s)) = [MainVBox, Stretch, ButtonBox]"
    by code_simp
  have m: "main_vbox (snd (projr ?s)) = [SlidersBox, PresetsEditorBox, AdditionalSettingsGroupBox]"
    by code_simp
  have h: "height (sliders (snd (projr ?s))) = 200"
    by code_simp
  have f: "map (\<lambda>c. (c ''image_height'', c ''copy_paste'', c ''show_settings''))
      (config_file (fst (projr ?r))) =
      [(Some (PInt 200), Some (PBool True), Some (PStr ''never''))]"
    by code_simp
  show ?thesis
    by (intro conjI) (rule c n x v l m h f)+
qed

end
